theory Spec2Isabelle
  imports Complex_Main "HOL-Library.AList"
begin

section \<open>Biometric security (face + voice): template store, matcher and page handlers\<close>

text \<open>
  A shallow embedding of \<^verbatim>\<open>utils.py\<close> and of the button handlers of
  \<^verbatim>\<open>steamlit_app.py\<close>.

  Conventions of the model:
  \<^item> an embedding vector (a 1-D numpy array) is a list of reals; floating-point rounding
    is not modelled;
  \<^item> a Python exception is a value of type \<open>exn\<close>; a function that may raise returns
    \<open>exn + 'a\<close>, and one that may raise after it has already written to the file
    system returns the file system it leaves behind next to the result;
  \<^item> the file system is a POSIX tree without symbolic links, permissions or name-length
    limits, used by this process only: an association list from absolute locations
    (lists of entry names, the root being \<open>[]\<close>) to nodes;
  \<^item> a Python dict is an association list in insertion order; a dict object that can be
    shared with a caller lives in a heap of dicts and is passed by reference.
\<close>

subsection \<open>Exceptions\<close>

datatype exn =
    FileNotFoundError string
  | FileExistsError
  | NotADirectoryError
  | IsADirectoryError
  | ValueError string
  | OtherError string

definition ENOENT :: exn where
  "ENOENT = FileNotFoundError ''No such file or directory''"

fun is_FileNotFoundError :: "exn \<Rightarrow> bool" where
  "is_FileNotFoundError (FileNotFoundError _) = True"
| "is_FileNotFoundError _ = False"

subsection \<open>Values: vectors, JSON scalars, dicts\<close>

type_synonym vec = "real list"

type_synonym bytes = string

datatype jval = JStr string | JNum int | JBool bool | JNull

type_synonym pydict = "(string \<times> jval) list"

text \<open>\<^verbatim>\<open>d.update({k: v})\<close>: an existing key keeps its position, a new key goes last.\<close>

definition dict_update :: "string \<Rightarrow> jval \<Rightarrow> pydict \<Rightarrow> pydict" where
  "dict_update k v d = AList.update k v d"

subsection \<open>pathlib: pure paths\<close>

text \<open>
  A \<^verbatim>\<open>PosixPath\<close>: whether it is anchored at the root, and its parts. Parsing collapses
  repeated slashes and single dots and keeps \<^verbatim>\<open>..\<close>.
\<close>

datatype pypath = PyPath (is_absolute: bool) (parts: "string list")

fun split_sep :: "string \<Rightarrow> string list" where
  "split_sep [] = [[]]"
| "split_sep (c # cs) =
     (if c = CHR ''/'' then [] # split_sep cs
      else (case split_sep cs of [] \<Rightarrow> [[c]] | w # ws \<Rightarrow> (c # w) # ws))"

definition Path :: "string \<Rightarrow> pypath" where
  "Path s = PyPath (s \<noteq> [] \<and> hd s = CHR ''/'')
                   (filter (\<lambda>c. c \<noteq> [] \<and> c \<noteq> ''.'') (split_sep s))"

text \<open>\<^verbatim>\<open>p / s\<close>: an absolute right operand replaces the left one.\<close>

definition truediv :: "pypath \<Rightarrow> string \<Rightarrow> pypath" where
  "truediv p s =
     (let q = Path s
      in if is_absolute q then q else PyPath (is_absolute p) (parts p @ parts q))"

text \<open>\<^verbatim>\<open>p.name\<close>: the final part, or the empty string.\<close>

definition name :: "pypath \<Rightarrow> string" where
  "name p = (if parts p = [] then [] else last (parts p))"

subsection \<open>The file system\<close>

datatype content = Npy vec | JsonObj pydict | Other

datatype node = Dir | File content

type_synonym loc = "string list"

type_synonym fs = "(loc \<times> node) list"

text \<open>The root directory always exists.\<close>

definition node_at :: "fs \<Rightarrow> loc \<Rightarrow> node option" where
  "node_at fs l = (if l = [] then Some Dir else map_of fs l)"

definition put :: "loc \<Rightarrow> node \<Rightarrow> fs \<Rightarrow> fs" where
  "put l n fs = AList.update l n fs"

text \<open>
  Path resolution by the kernel: every part is looked up in the directory reached so
  far, \<^verbatim>\<open>..\<close> goes to the parent (the root is its own parent). The location of the
  last part is returned whether or not something exists there.
\<close>

fun walk :: "fs \<Rightarrow> loc \<Rightarrow> string list \<Rightarrow> exn + loc" where
  "walk fs l [] = Inr l"
| "walk fs l (c # cs) =
     (case node_at fs l of
        None \<Rightarrow> Inl ENOENT
      | Some (File _) \<Rightarrow> Inl NotADirectoryError
      | Some Dir \<Rightarrow> walk fs (if c = ''..'' then butlast l else l @ [c]) cs)"

definition resolve :: "loc \<Rightarrow> fs \<Rightarrow> pypath \<Rightarrow> exn + loc" where
  "resolve cwd fs p = walk fs (if is_absolute p then [] else cwd) (parts p)"

text \<open>\<^verbatim>\<open>p.exists()\<close> and \<^verbatim>\<open>p.is_dir()\<close>: a failing \<^verbatim>\<open>stat\<close> gives \<^verbatim>\<open>False\<close>.\<close>

definition exists :: "loc \<Rightarrow> fs \<Rightarrow> pypath \<Rightarrow> bool" where
  "exists cwd fs p =
     (case resolve cwd fs p of Inl _ \<Rightarrow> False | Inr l \<Rightarrow> node_at fs l \<noteq> None)"

definition is_dir :: "loc \<Rightarrow> fs \<Rightarrow> pypath \<Rightarrow> bool" where
  "is_dir cwd fs p =
     (case resolve cwd fs p of Inl _ \<Rightarrow> False | Inr l \<Rightarrow> node_at fs l = Some Dir)"

text \<open>\<^verbatim>\<open>os.mkdir(p)\<close>: creates one directory, or fails and changes nothing.\<close>

definition os_mkdir :: "loc \<Rightarrow> fs \<Rightarrow> pypath \<Rightarrow> exn + fs" where
  "os_mkdir cwd fs p =
     (case resolve cwd fs p of
        Inl e \<Rightarrow> Inl e
      | Inr l \<Rightarrow>
          (case node_at fs l of
             Some _ \<Rightarrow> Inl FileExistsError
           | None \<Rightarrow>
               if parts p = [] \<or> last (parts p) = ''..'' then Inl ENOENT
               else Inr (put l Dir fs)))"

text \<open>
  \<^verbatim>\<open>p.mkdir(parents=False, exist_ok=True)\<close>: a missing parent is an error, any other
  failure is forgiven when \<^verbatim>\<open>p\<close> is a directory.
\<close>

definition mkdir_exist_ok :: "loc \<Rightarrow> fs \<Rightarrow> pypath \<Rightarrow> exn + fs" where
  "mkdir_exist_ok cwd fs p =
     (case os_mkdir cwd fs p of
        Inr fs' \<Rightarrow> Inr fs'
      | Inl e \<Rightarrow>
          if is_FileNotFoundError e then Inl e
          else if is_dir cwd fs p then Inr fs else Inl e)"

text \<open>
  \<^verbatim>\<open>p.mkdir(parents=True, exist_ok=True)\<close>. pathlib tries \<^verbatim>\<open>os.mkdir(p)\<close>; on
  \<^verbatim>\<open>FileNotFoundError\<close> it creates \<^verbatim>\<open>p.parent\<close> the same way and retries without
  \<^verbatim>\<open>parents\<close>; a path without parts is its own parent and the error is raised again.
  The recursion runs over the parts in reverse, so that the parent is the tail. A
  failure may leave behind the parents already created.
\<close>

fun mkdir_parents_rev :: "loc \<Rightarrow> bool \<Rightarrow> string list \<Rightarrow> fs \<Rightarrow> (exn + unit) \<times> fs" where
  "mkdir_parents_rev cwd ab [] fs =
     (case os_mkdir cwd fs (PyPath ab []) of
        Inr fs' \<Rightarrow> (Inr (), fs')
      | Inl e \<Rightarrow>
          if is_FileNotFoundError e then (Inl e, fs)
          else if is_dir cwd fs (PyPath ab []) then (Inr (), fs) else (Inl e, fs))"
| "mkdir_parents_rev cwd ab (c # rs) fs =
     (case os_mkdir cwd fs (PyPath ab (rev (c # rs))) of
        Inr fs' \<Rightarrow> (Inr (), fs')
      | Inl e \<Rightarrow>
          if is_FileNotFoundError e then
            (case mkdir_parents_rev cwd ab rs fs of
               (Inl e', fs1) \<Rightarrow> (Inl e', fs1)
             | (Inr _, fs1) \<Rightarrow>
                 (case mkdir_exist_ok cwd fs1 (PyPath ab (rev (c # rs))) of
                    Inl e' \<Rightarrow> (Inl e', fs1)
                  | Inr fs2 \<Rightarrow> (Inr (), fs2)))
          else if is_dir cwd fs (PyPath ab (rev (c # rs))) then (Inr (), fs)
          else (Inl e, fs))"

definition mkdir_parents :: "loc \<Rightarrow> pypath \<Rightarrow> fs \<Rightarrow> (exn + unit) \<times> fs" where
  "mkdir_parents cwd p fs = mkdir_parents_rev cwd (is_absolute p) (rev (parts p)) fs"

text \<open>
  Writing a whole file (\<^verbatim>\<open>np.save\<close>, and \<^verbatim>\<open>open(p, "w")\<close> followed by
  \<^verbatim>\<open>json.dump\<close>): the file is created or replaced; a directory in its place is an
  error.
\<close>

definition write_file :: "loc \<Rightarrow> pypath \<Rightarrow> content \<Rightarrow> fs \<Rightarrow> exn + fs" where
  "write_file cwd p c fs =
     (case resolve cwd fs p of
        Inl e \<Rightarrow> Inl e
      | Inr l \<Rightarrow>
          (case node_at fs l of
             Some Dir \<Rightarrow> Inl IsADirectoryError
           | _ \<Rightarrow> Inr (put l (File c) fs)))"

definition read_file :: "loc \<Rightarrow> pypath \<Rightarrow> fs \<Rightarrow> exn + content" where
  "read_file cwd p fs =
     (case resolve cwd fs p of
        Inl e \<Rightarrow> Inl e
      | Inr l \<Rightarrow>
          (case node_at fs l of
             None \<Rightarrow> Inl ENOENT
           | Some Dir \<Rightarrow> Inl IsADirectoryError
           | Some (File c) \<Rightarrow> Inr c))"

definition np_save :: "loc \<Rightarrow> pypath \<Rightarrow> vec \<Rightarrow> fs \<Rightarrow> exn + fs" where
  "np_save cwd p v fs = write_file cwd p (Npy v) fs"

definition np_load :: "loc \<Rightarrow> pypath \<Rightarrow> fs \<Rightarrow> exn + vec" where
  "np_load cwd p fs =
     (case read_file cwd p fs of
        Inl e \<Rightarrow> Inl e
      | Inr (Npy v) \<Rightarrow> Inr v
      | Inr _ \<Rightarrow> Inl (ValueError ''not a .npy file''))"

definition json_load :: "loc \<Rightarrow> pypath \<Rightarrow> fs \<Rightarrow> exn + pydict" where
  "json_load cwd p fs =
     (case read_file cwd p fs of
        Inl e \<Rightarrow> Inl e
      | Inr (JsonObj d) \<Rightarrow> Inr d
      | Inr _ \<Rightarrow> Inl (ValueError ''not a JSON document''))"

text \<open>
  \<^verbatim>\<open>p.iterdir()\<close>: one child path per entry of the directory; it fails when \<^verbatim>\<open>p\<close> is
  missing or is not a directory.
\<close>

definition iterdir :: "loc \<Rightarrow> fs \<Rightarrow> pypath \<Rightarrow> exn + pypath list" where
  "iterdir cwd fs p =
     (case resolve cwd fs p of
        Inl e \<Rightarrow> Inl e
      | Inr l \<Rightarrow>
          (case node_at fs l of
             None \<Rightarrow> Inl ENOENT
           | Some (File _) \<Rightarrow> Inl NotADirectoryError
           | Some Dir \<Rightarrow>
               Inr (map (\<lambda>e. PyPath (is_absolute p) (parts p @ [last (fst e)]))
                        (filter (\<lambda>e. fst e \<noteq> [] \<and> butlast (fst e) = l) fs))))"

subsection \<open>utils.py: embedding extraction\<close>

text \<open>
  The face and speaker models are external. \<open>face_encodings\<close> stands for
  \<^verbatim>\<open>face_recognition.load_image_file\<close> followed by \<^verbatim>\<open>face_recognition.face_encodings\<close>
  (one encoding per face found), \<open>encode_file\<close> for loading the speaker model and
  \<^verbatim>\<open>model.encode_file\<close> on a temporary copy of the audio; both are parameters. The
  handlers pass bytes, never a path. Files the models keep for themselves (the model
  cache, the temporary WAV file) are outside the modelled file system.
\<close>

definition get_face_encoding_from_image :: "(bytes \<Rightarrow> exn + vec list) \<Rightarrow> bytes \<Rightarrow> exn + vec" where
  "get_face_encoding_from_image face_encodings image_bytes =
     (case face_encodings image_bytes of
        Inl e \<Rightarrow> Inl e
      | Inr encs \<Rightarrow>
          if length encs = 0
          then Inl (ValueError ''No face found in the image. Please upload a clear face image.'')
          else Inr (encs ! 0))"

definition get_voice_embedding_from_wav :: "(bytes \<Rightarrow> exn + vec) \<Rightarrow> bytes \<Rightarrow> exn + vec" where
  "get_voice_embedding_from_wav encode_file wav_bytes = encode_file wav_bytes"

subsection \<open>utils.py: matching\<close>

text \<open>
  \<^verbatim>\<open>sklearn.metrics.pairwise.cosine_similarity\<close> on two single-row matrices, over the
  reals: both rows are divided by their Euclidean norm, a zero norm being replaced by
  1, and the dot product is taken. Rows without features or of different widths are
  rejected with \<^verbatim>\<open>ValueError\<close>.
\<close>

definition dot :: "vec \<Rightarrow> vec \<Rightarrow> real" where
  "dot a b = sum_list (map (\<lambda>(x, y). x * y) (zip a b))"

definition row_norm :: "vec \<Rightarrow> real" where
  "row_norm a = sqrt (sum_list (map (\<lambda>x. x * x) a))"

definition normalize :: "vec \<Rightarrow> vec" where
  "normalize a = (let n = row_norm a; n' = (if n = 0 then 1 else n) in map (\<lambda>x. x / n') a)"

definition cosine_similarity :: "vec \<Rightarrow> vec \<Rightarrow> exn + real" where
  "cosine_similarity a b =
     (if a = [] \<or> b = [] then Inl (ValueError ''Found array with 0 feature(s)'')
      else if length a \<noteq> length b
      then Inl (ValueError ''Incompatible dimension for X and Y matrices'')
      else Inr (dot (normalize a) (normalize b)))"

text \<open>\<^verbatim>\<open>reshape(1, -1)\<close> makes each vector a single row; \<^verbatim>\<open>[0][0]\<close> reads the one entry.\<close>

definition cosine_score :: "vec \<Rightarrow> vec \<Rightarrow> exn + real" where
  "cosine_score a b = cosine_similarity a b"

definition is_face_match :: "vec \<Rightarrow> vec \<Rightarrow> real \<Rightarrow> exn + bool \<times> real" where
  "is_face_match enc1 enc2 threshold =
     (case cosine_score enc1 enc2 of
        Inl e \<Rightarrow> Inl e
      | Inr score \<Rightarrow> Inr (score \<ge> threshold, score))"

definition is_voice_match :: "vec \<Rightarrow> vec \<Rightarrow> real \<Rightarrow> exn + bool \<times> real" where
  "is_voice_match enc1 enc2 threshold =
     (case cosine_score enc1 enc2 of
        Inl e \<Rightarrow> Inl e
      | Inr score \<Rightarrow> Inr (score \<ge> threshold, score))"

text \<open>The default values of the \<^verbatim>\<open>threshold\<close> parameters.\<close>

definition face_threshold_default :: real where
  "face_threshold_default = 55 / 100"

definition voice_threshold_default :: real where
  "voice_threshold_default = 6 / 10"

subsection \<open>utils.py: storage\<close>

definition ensure_user_dir :: "loc \<Rightarrow> string \<Rightarrow> string \<Rightarrow> fs \<Rightarrow> (exn + pypath) \<times> fs" where
  "ensure_user_dir cwd base_dir username fs =
     (let base = Path base_dir in
      case mkdir_parents cwd base fs of
        (Inl e, fs1) \<Rightarrow> (Inl e, fs1)
      | (Inr _, fs1) \<Rightarrow>
          (let ud = truediv base username in
           case mkdir_parents cwd ud fs1 of
             (Inl e, fs2) \<Rightarrow> (Inl e, fs2)
           | (Inr _, fs2) \<Rightarrow> (Inr ud, fs2)))"

text \<open>
  The heap holds the dict objects; \<open>meta\<close> is \<open>None\<close> or a reference into it.
  \<^verbatim>\<open>meta or {}\<close> is \<open>meta\<close> itself unless \<open>meta\<close> is falsy, that is \<^verbatim>\<open>None\<close> or an empty
  dict; then it is a new empty dict.
\<close>

type_synonym heap = "pydict list"

definition meta_or_new :: "nat option \<Rightarrow> heap \<Rightarrow> nat \<times> heap" where
  "meta_or_new meta h =
     (case meta of
        None \<Rightarrow> (length h, h @ [[]])
      | Some r \<Rightarrow> if h ! r = [] then (length h, h @ [[]]) else (r, h))"

definition save_user_embeddings ::
  "loc \<Rightarrow> string \<Rightarrow> string \<Rightarrow> vec \<Rightarrow> vec \<Rightarrow> nat option \<Rightarrow> fs \<times> heap \<Rightarrow> (exn + unit) \<times> fs \<times> heap"
where
  "save_user_embeddings cwd base_dir username face_enc voice_enc meta s =
     (case s of (fs, h) \<Rightarrow>
      case ensure_user_dir cwd base_dir username fs of
        (Inl e, fs1) \<Rightarrow> (Inl e, fs1, h)
      | (Inr ud, fs1) \<Rightarrow>
          (case np_save cwd (truediv ud ''face_enc.npy'') face_enc fs1 of
             Inl e \<Rightarrow> (Inl e, fs1, h)
           | Inr fs2 \<Rightarrow>
               (case np_save cwd (truediv ud ''voice_enc.npy'') voice_enc fs2 of
                  Inl e \<Rightarrow> (Inl e, fs2, h)
                | Inr fs3 \<Rightarrow>
                    (case meta_or_new meta h of
                       (meta_data, h1) \<Rightarrow>
                         (let h2 = h1[meta_data := dict_update ''username'' (JStr username) (h1 ! meta_data)]
                          in case write_file cwd (truediv ud ''meta.json'') (JsonObj (h2 ! meta_data)) fs3 of
                               Inl e \<Rightarrow> (Inl e, fs3, h2)
                             | Inr fs4 \<Rightarrow> (Inr (), fs4, h2))))))"

definition load_user_embeddings :: "loc \<Rightarrow> string \<Rightarrow> string \<Rightarrow> fs \<Rightarrow> exn + vec \<times> vec \<times> pydict" where
  "load_user_embeddings cwd base_dir username fs =
     (let ud = truediv (Path base_dir) username in
      if \<not> exists cwd fs ud then Inl (FileNotFoundError ''User not found'')
      else
        case np_load cwd (truediv ud ''face_enc.npy'') fs of
          Inl e \<Rightarrow> Inl e
        | Inr face_enc \<Rightarrow>
            (case np_load cwd (truediv ud ''voice_enc.npy'') fs of
               Inl e \<Rightarrow> Inl e
             | Inr voice_enc \<Rightarrow>
                 if exists cwd fs (truediv ud ''meta.json'')
                 then (case json_load cwd (truediv ud ''meta.json'') fs of
                         Inl e \<Rightarrow> Inl e
                       | Inr meta \<Rightarrow> Inr (face_enc, voice_enc, meta))
                 else Inr (face_enc, voice_enc, [])))"

definition list_users :: "loc \<Rightarrow> string \<Rightarrow> fs \<Rightarrow> exn + string list" where
  "list_users cwd base_dir fs =
     (let base = Path base_dir in
      if \<not> exists cwd fs base then Inr []
      else
        case iterdir cwd fs base of
          Inl e \<Rightarrow> Inl e
        | Inr ps \<Rightarrow> Inr (map name (filter (is_dir cwd fs) ps)))"

subsection \<open>steamlit\_app.py: what a page shows\<close>

text \<open>
  A run of the script is modelled by the messages its branches emit, in order; static
  headings and the input widgets themselves are left out, and pictographs are dropped
  from the message texts. \<open>St_match\<close> is a line of \<^verbatim>\<open>show_match_results\<close>: the label,
  the score (printed with three decimals) and whether it reads PASS. \<open>Script_exception\<close>
  is an exception that no \<^verbatim>\<open>try\<close> block catches: it ends the run.
\<close>

datatype st_out =
    St_error string
  | St_success string
  | St_info string
  | St_warning string
  | St_exception exn
  | St_match string real bool
  | Script_exception exn

definition BASE_USERS_DIR :: string where
  "BASE_USERS_DIR = ''users''"

definition show_match_results :: "real \<Rightarrow> bool \<Rightarrow> real \<Rightarrow> bool \<Rightarrow> st_out list" where
  "show_match_results face_score face_ok voice_score voice_ok =
     [St_match ''Face match'' face_score face_ok,
      St_match ''Voice match'' voice_score voice_ok,
      if face_ok \<and> voice_ok
      then St_success ''Authentication successful - Access Granted''
      else St_error ''Authentication failed - Access Denied'']"

subsection \<open>steamlit\_app.py: the Authenticate page\<close>

text \<open>
  The handler of the \<^verbatim>\<open>Verify\<close> button. An upload widget holds \<open>None\<close> or the uploaded
  bytes. Inside the \<^verbatim>\<open>try\<close> block the order is: face encoding, voice embedding, stored
  template, face match, voice match.
\<close>

definition authenticate_verify ::
  "(bytes \<Rightarrow> exn + vec list) \<Rightarrow> (bytes \<Rightarrow> exn + vec) \<Rightarrow> loc \<Rightarrow> fs \<Rightarrow>
   string \<Rightarrow> bytes option \<Rightarrow> bytes option \<Rightarrow> st_out list"
where
  "authenticate_verify face_encodings encode_file cwd fs target_user img_input audio_file =
     (if target_user = [] then [St_error ''Enter the username to verify against.'']
      else
        case (audio_file, img_input) of
          (Some wav_bytes, Some img_bytes) \<Rightarrow>
            (case get_face_encoding_from_image face_encodings img_bytes of
               Inl e \<Rightarrow> [St_exception e]
             | Inr face_enc_live \<Rightarrow>
            (case get_voice_embedding_from_wav encode_file wav_bytes of
               Inl e \<Rightarrow> [St_exception e]
             | Inr voice_enc_live \<Rightarrow>
            (case load_user_embeddings cwd BASE_USERS_DIR target_user fs of
               Inl e \<Rightarrow> [St_exception e]
             | Inr (face_enc_stored, voice_enc_stored, meta) \<Rightarrow>
            (case is_face_match face_enc_live face_enc_stored face_threshold_default of
               Inl e \<Rightarrow> [St_exception e]
             | Inr (face_ok, face_score) \<Rightarrow>
            (case is_voice_match voice_enc_live voice_enc_stored voice_threshold_default of
               Inl e \<Rightarrow> [St_exception e]
             | Inr (voice_ok, voice_score) \<Rightarrow>
                 show_match_results face_score face_ok voice_score voice_ok)))))
        | _ \<Rightarrow> [St_error ''Please upload both face image and voice sample.''])"

subsection \<open>steamlit\_app.py: the Admin Login / Enroll page\<close>

record admin_widgets =
  admin_user :: string
  admin_img :: "bytes option"
  admin_audio :: "bytes option"
  admin_verify_button :: bool
  init_user :: string
  init_face :: "bytes option"
  init_voice :: "bytes option"
  create_admin_button :: bool
  admin_flag :: bool
  new_username :: string
  new_face :: "bytes option"
  new_voice :: "bytes option"
  enroll_button :: bool

text \<open>
  Step 1, the \<^verbatim>\<open>Admin Verify\<close> button. It returns its messages and the value of the
  local variable \<^verbatim>\<open>admin_authenticated\<close> at the end of the block.
\<close>

definition admin_verify ::
  "(bytes \<Rightarrow> exn + vec list) \<Rightarrow> (bytes \<Rightarrow> exn + vec) \<Rightarrow> loc \<Rightarrow> fs \<Rightarrow>
   admin_widgets \<Rightarrow> st_out list \<times> bool"
where
  "admin_verify face_encodings encode_file cwd fs w =
     (if admin_verify_button w then
        (case (admin_img w, admin_audio w) of
           (Some img_bytes, Some wav_bytes) \<Rightarrow>
             if admin_user w = [] then ([St_error ''Provide admin username, image, and audio.''], False)
             else
            (case get_face_encoding_from_image face_encodings img_bytes of
               Inl e \<Rightarrow> ([St_exception e], False)
             | Inr face_enc_live \<Rightarrow>
            (case get_voice_embedding_from_wav encode_file wav_bytes of
               Inl e \<Rightarrow> ([St_exception e], False)
             | Inr voice_enc_live \<Rightarrow>
            (case load_user_embeddings cwd BASE_USERS_DIR (admin_user w) fs of
               Inl e \<Rightarrow> ([St_exception e], False)
             | Inr (face_enc_stored, voice_enc_stored, meta) \<Rightarrow>
            (case is_face_match face_enc_live face_enc_stored face_threshold_default of
               Inl e \<Rightarrow> ([St_exception e], False)
             | Inr (face_ok, face_score) \<Rightarrow>
            (case is_voice_match voice_enc_live voice_enc_stored voice_threshold_default of
               Inl e \<Rightarrow> ([St_exception e], False)
             | Inr (voice_ok, voice_score) \<Rightarrow>
                 if face_ok \<and> voice_ok
                 then ([St_success ''Admin authenticated. You can enroll new users below.''], True)
                 else ([St_error ''Admin biometric authentication failed.''], False))))))
         | _ \<Rightarrow> ([St_error ''Provide admin username, image, and audio.''], False))
      else ([], False))"

text \<open>
  Step 0, the \<^verbatim>\<open>Create Admin\<close> form, shown only while \<^verbatim>\<open>list_users\<close> is empty. The
  call of \<^verbatim>\<open>list_users\<close> is outside every \<^verbatim>\<open>try\<close> block. The dict literal
  \<^verbatim>\<open>{"role": "admin"}\<close> is a new object that only the callee sees.
\<close>

definition create_admin ::
  "(bytes \<Rightarrow> exn + vec list) \<Rightarrow> (bytes \<Rightarrow> exn + vec) \<Rightarrow> loc \<Rightarrow> admin_widgets \<Rightarrow> fs \<Rightarrow>
   (exn + st_out list) \<times> fs"
where
  "create_admin face_encodings encode_file cwd w fs =
     (case list_users cwd BASE_USERS_DIR fs of
        Inl e \<Rightarrow> (Inl e, fs)
      | Inr users \<Rightarrow>
          if length users = 0 then
            (if create_admin_button w then
               (case (init_face w, init_voice w) of
                  (Some face_bytes, Some voice_bytes) \<Rightarrow>
                    if init_user w = []
                    then (Inr [St_warning ''No users found. Initialize first admin here.'',
                               St_error ''Provide username, face image and voice WAV.''], fs)
                    else
                   (case get_face_encoding_from_image face_encodings face_bytes of
                      Inl e \<Rightarrow> (Inr [St_warning ''No users found. Initialize first admin here.'',
                                      St_exception e], fs)
                    | Inr fenc \<Rightarrow>
                   (case get_voice_embedding_from_wav encode_file voice_bytes of
                      Inl e \<Rightarrow> (Inr [St_warning ''No users found. Initialize first admin here.'',
                                      St_exception e], fs)
                    | Inr venc \<Rightarrow>
                   (case save_user_embeddings cwd BASE_USERS_DIR (init_user w) fenc venc (Some 0)
                           (fs, [[(''role'', JStr ''admin'')]]) of
                      (Inl e, fs', h) \<Rightarrow>
                        (Inr [St_warning ''No users found. Initialize first admin here.'',
                              St_exception e], fs')
                    | (Inr _, fs', h) \<Rightarrow>
                        (Inr [St_warning ''No users found. Initialize first admin here.'',
                              St_success (''Admin '' @ init_user w @
                                '' initialized. You can now login using Admin Verify.'')], fs'))))
                | _ \<Rightarrow> (Inr [St_warning ''No users found. Initialize first admin here.'',
                              St_error ''Provide username, face image and voice WAV.''], fs))
             else (Inr [St_warning ''No users found. Initialize first admin here.''], fs))
          else (Inr [St_info ''Users already exist; initializing admin not required.''], fs))"

text \<open>
  The enrollment panel. It is shown when the checkbox \<^verbatim>\<open>admin_flag\<close> is ticked; the
  variable \<^verbatim>\<open>admin_authenticated\<close> of step 1 is not read.
\<close>

definition enroll_new_user ::
  "(bytes \<Rightarrow> exn + vec list) \<Rightarrow> (bytes \<Rightarrow> exn + vec) \<Rightarrow> loc \<Rightarrow> admin_widgets \<Rightarrow> fs \<Rightarrow>
   (exn + st_out list) \<times> fs"
where
  "enroll_new_user face_encodings encode_file cwd w fs =
     (if admin_flag w then
        (if enroll_button w then
           (case (new_face w, new_voice w) of
              (Some face_bytes, Some voice_bytes) \<Rightarrow>
                if new_username w = []
                then (Inr [St_error ''Provide username, image, and voice WAV.''], fs)
                else
                 (case list_users cwd BASE_USERS_DIR fs of
                    Inl e \<Rightarrow> (Inl e, fs)
                  | Inr users \<Rightarrow>
                      if new_username w \<in> set users
                      then (Inr [St_error ''Username already exists.''], fs)
                      else
                       (case get_face_encoding_from_image face_encodings face_bytes of
                          Inl e \<Rightarrow> (Inr [St_exception e], fs)
                        | Inr fenc \<Rightarrow>
                       (case get_voice_embedding_from_wav encode_file voice_bytes of
                          Inl e \<Rightarrow> (Inr [St_exception e], fs)
                        | Inr venc \<Rightarrow>
                       (case save_user_embeddings cwd BASE_USERS_DIR (new_username w) fenc venc
                               (Some 0) (fs, [[(''created_by'', JStr ''admin'')]]) of
                          (Inl e, fs', h) \<Rightarrow> (Inr [St_exception e], fs')
                        | (Inr _, fs', h) \<Rightarrow>
                            (Inr [St_success (''User '' @ [CHR 0x27] @ new_username w @ [CHR 0x27] @
                                              '' enrolled successfully.'')], fs')))))
            | _ \<Rightarrow> (Inr [St_error ''Provide username, image, and voice WAV.''], fs))
         else (Inr [], fs))
      else (Inr [], fs))"

text \<open>One run of the page: step 1, step 0, then the enrollment panel.\<close>

definition admin_page ::
  "(bytes \<Rightarrow> exn + vec list) \<Rightarrow> (bytes \<Rightarrow> exn + vec) \<Rightarrow> loc \<Rightarrow> admin_widgets \<Rightarrow> fs \<Rightarrow>
   st_out list \<times> fs"
where
  "admin_page face_encodings encode_file cwd w fs =
     (case admin_verify face_encodings encode_file cwd fs w of
        (out1, admin_authenticated) \<Rightarrow>
          (case create_admin face_encodings encode_file cwd w fs of
             (Inl e, fs1) \<Rightarrow> (out1 @ [Script_exception e], fs1)
           | (Inr out0, fs1) \<Rightarrow>
               (case enroll_new_user face_encodings encode_file cwd w fs1 of
                  (Inl e, fs2) \<Rightarrow> (out1 @ out0 @ [Script_exception e], fs2)
                | (Inr out2, fs2) \<Rightarrow> (out1 @ out0 @ out2, fs2))))"

subsection \<open>Notions used by the properties\<close>

text \<open>The score as the specification words it: \<open>dot(a, b) / (||a|| * ||b||)\<close>.\<close>

definition spec_score :: "vec \<Rightarrow> vec \<Rightarrow> real" where
  "spec_score a b = dot a b / (row_norm a * row_norm b)"

text \<open>Access is granted when the success banner of \<^verbatim>\<open>show_match_results\<close> is shown.\<close>

definition granted :: "st_out list \<Rightarrow> bool" where
  "granted out = (St_success ''Authentication successful - Access Granted'' \<in> set out)"

text \<open>
  An entry name as a directory can hold it, and a well-formed file system: no location
  is listed twice, every name is an entry name, and every entry lies in a directory.
\<close>

definition valid_name :: "string \<Rightarrow> bool" where
  "valid_name n = (n \<noteq> [] \<and> n \<noteq> ''.'' \<and> n \<noteq> ''..'' \<and> CHR ''/'' \<notin> set n)"

definition wf_fs :: "fs \<Rightarrow> bool" where
  "wf_fs fs =
     (distinct (map fst fs) \<and>
      (\<forall>e \<in> set fs. fst e \<noteq> [] \<and> list_all valid_name (fst e)
                      \<and> node_at fs (butlast (fst e)) = Some Dir))"

text \<open>
  A reference passed as \<^verbatim>\<open>meta\<close> points into the heap; \<open>caller_dict\<close> is the dict the
  caller passed, the empty one for \<^verbatim>\<open>None\<close>.
\<close>

definition valid_ref :: "heap \<Rightarrow> nat option \<Rightarrow> bool" where
  "valid_ref h meta = (case meta of None \<Rightarrow> True | Some r \<Rightarrow> r < length h)"

definition caller_dict :: "heap \<Rightarrow> nat option \<Rightarrow> pydict" where
  "caller_dict h meta = (case meta of None \<Rightarrow> [] | Some r \<Rightarrow> h ! r)"

section \<open>Properties\<close>

subsection \<open>The matcher\<close>

lemma dot_scale: "dot (map (\<lambda>x. x / n) a) (map (\<lambda>y. y / m) b) = dot a b / (n * m)"
proof (induction a arbitrary: b)
  case Nil
  then show ?case by (simp add: dot_def)
next
  case (Cons x a)
  show ?case
  proof (cases b)
    case Nil
    then show ?thesis by (simp add: dot_def)
  next
    case (Cons y b')
    have "dot (map (\<lambda>x. x / n) (x # a)) (map (\<lambda>y. y / m) (y # b'))
          = (x / n) * (y / m) + dot (map (\<lambda>x. x / n) a) (map (\<lambda>y. y / m) b')"
      by (simp add: dot_def)
    also have "\<dots> = (x * y) / (n * m) + dot a b' / (n * m)"
      by (simp add: Cons.IH)
    also have "\<dots> = dot (x # a) (y # b') / (n * m)"
      by (simp add: dot_def add_divide_distrib)
    finally show ?thesis using Cons by simp
  qed
qed

lemma sum_squares_nonneg: "0 \<le> sum_list (map (\<lambda>x. x * x) (a::real list))"
  by (induction a) auto

lemma row_norm_zero_all: "row_norm a = 0 \<Longrightarrow> \<forall>x \<in> set a. x = 0"
proof (induction a)
  case Nil
  then show ?case by simp
next
  case (Cons x a)
  have s: "x * x + sum_list (map (\<lambda>x. x * x) a) = 0"
    using Cons.prems by (simp add: row_norm_def)
  have "0 \<le> x * x" by simp
  with s sum_squares_nonneg [of a] have "x * x = 0" and "sum_list (map (\<lambda>x. x * x) a) = 0"
    by linarith+
  then show ?case using Cons.IH by (simp add: row_norm_def)
qed

lemma dot_zero_left: "\<forall>x \<in> set a. x = 0 \<Longrightarrow> dot a b = 0"
proof (induction a arbitrary: b)
  case Nil
  then show ?case by (simp add: dot_def)
next
  case (Cons x a)
  then show ?case by (cases b) (simp_all add: dot_def)
qed

lemma dot_zero_right: "\<forall>y \<in> set b. y = 0 \<Longrightarrow> dot a b = 0"
proof (induction a arbitrary: b)
  case Nil
  then show ?case by (simp add: dot_def)
next
  case (Cons x a)
  then show ?case by (cases b) (simp_all add: dot_def)
qed

text \<open>
  Normalising first, as the library does, gives the quotient of the specification; with
  a zero vector both are 0.
\<close>

lemma dot_normalize: "dot (normalize a) (normalize b) = spec_score a b"
proof -
  let ?n = "if row_norm a = 0 then 1 else row_norm a"
  let ?m = "if row_norm b = 0 then 1 else row_norm b"
  have e: "dot (normalize a) (normalize b) = dot a b / (?n * ?m)"
    unfolding normalize_def Let_def by (rule dot_scale)
  show ?thesis
  proof (cases "row_norm a = 0 \<or> row_norm b = 0")
    case True
    then have "dot a b = 0"
      using row_norm_zero_all dot_zero_left dot_zero_right by blast
    with True e show ?thesis by (auto simp: spec_score_def)
  next
    case False
    with e show ?thesis by (simp add: spec_score_def)
  qed
qed

lemma cosine_score_spec:
  assumes "a \<noteq> []" and "length a = length b"
  shows "cosine_score a b = Inr (spec_score a b)"
proof -
  from assms have "b \<noteq> []" by auto
  with assms show ?thesis
    by (simp add: cosine_score_def cosine_similarity_def dot_normalize)
qed

lemma row_norm_e1: "row_norm [1, 0, 0, 0] = 1"
  by (simp add: row_norm_def)

lemma row_norm_07: "row_norm [7/10, 1/10, 1/10, 7/10] = 1"
  by (simp add: row_norm_def)

lemma row_norm_05: "row_norm [1/2, 1/2, 1/2, 1/2] = 1"
  by (simp add: row_norm_def)

lemma score_07: "spec_score [1, 0, 0, 0] [7/10, 1/10, 1/10, 7/10] = 7/10"
  by (simp add: spec_score_def row_norm_e1 row_norm_07 dot_def)

lemma score_05: "spec_score [1, 0, 0, 0] [1/2, 1/2, 1/2, 1/2] = 1/2"
  by (simp add: spec_score_def row_norm_e1 row_norm_05 dot_def)

text \<open>
  C8. For two vectors of the same, non-zero dimension and every threshold,
  \<^verbatim>\<open>is_face_match\<close> and \<^verbatim>\<open>is_voice_match\<close> return the pair of the decision and the
  score, where the score is the cosine similarity and the decision is
  \<open>score \<ge> threshold\<close>; the default thresholds are 0.55 for the face and 0.60 for the
  voice.
\<close>

theorem decide_spec:
  assumes "a \<noteq> []" and "length a = length b"
  shows "is_face_match a b t = Inr (spec_score a b \<ge> t, spec_score a b)
       \<and> is_voice_match a b t = Inr (spec_score a b \<ge> t, spec_score a b)
       \<and> face_threshold_default = 0.55 \<and> voice_threshold_default = 0.60"
  using cosine_score_spec [OF assms]
  by (simp add: is_face_match_def is_voice_match_def face_threshold_default_def
      voice_threshold_default_def)

theorem decide_spec_witness:
  "is_face_match [1, 0, 0, 0] [7/10, 1/10, 1/10, 7/10] (55/100) = Inr (True, 7/10)
   \<and> is_voice_match [1, 0, 0, 0] [1/2, 1/2, 1/2, 1/2] (6/10) = Inr (False, 1/2)"
  using decide_spec [of "[1, 0, 0, 0]" "[7/10, 1/10, 1/10, 7/10]" "55/100"]
        decide_spec [of "[1, 0, 0, 0]" "[1/2, 1/2, 1/2, 1/2]" "6/10"]
  by (simp add: score_07 score_05)

subsection \<open>The Authenticate page\<close>

lemma granted_show: "granted (show_match_results fs fo vs vo) = (fo \<and> vo)"
  by (simp add: granted_def show_match_results_def)

lemma face_match_example:
  "is_face_match [1, 0, 0, 0] [7/10, 1/10, 1/10, 7/10] face_threshold_default = Inr (True, 7/10)"
  using cosine_score_spec [of "[1, 0, 0, 0]" "[7/10, 1/10, 1/10, 7/10]"]
  by (simp add: is_face_match_def face_threshold_default_def score_07)

lemma voice_match_example:
  "is_voice_match [1, 0, 0, 0] [1/2, 1/2, 1/2, 1/2] voice_threshold_default = Inr (False, 1/2)"
  using cosine_score_spec [of "[1, 0, 0, 0]" "[1/2, 1/2, 1/2, 1/2]"]
  by (simp add: is_voice_match_def voice_threshold_default_def score_05)

text \<open>
  C4. The \<^verbatim>\<open>Verify\<close> handler grants access exactly when it reaches both decisions and
  both pass: the face decision and the voice decision, each against its own default
  threshold, are combined by a conjunction, and no combined score exists. A face score
  of 0.7 with a voice score of 0.5 passes the face threshold, fails the voice threshold
  and is denied.
\<close>

theorem verify_granted_iff:
  "(granted (authenticate_verify face_encodings encode_file cwd fs target_user img_input audio_file)
    \<longleftrightarrow>
    (\<exists>img_bytes wav_bytes face_live voice_live face_stored voice_stored meta face_score voice_score.
       target_user \<noteq> [] \<and> img_input = Some img_bytes \<and> audio_file = Some wav_bytes
       \<and> get_face_encoding_from_image face_encodings img_bytes = Inr face_live
       \<and> get_voice_embedding_from_wav encode_file wav_bytes = Inr voice_live
       \<and> load_user_embeddings cwd BASE_USERS_DIR target_user fs
           = Inr (face_stored, voice_stored, meta)
       \<and> is_face_match face_live face_stored face_threshold_default = Inr (True, face_score)
       \<and> is_voice_match voice_live voice_stored voice_threshold_default = Inr (True, voice_score)))
   \<and> is_face_match [1, 0, 0, 0] [7/10, 1/10, 1/10, 7/10] face_threshold_default = Inr (True, 7/10)
   \<and> is_voice_match [1, 0, 0, 0] [1/2, 1/2, 1/2, 1/2] voice_threshold_default = Inr (False, 1/2)
   \<and> \<not> granted (show_match_results (7/10) True (1/2) False)"
proof -
  have "granted (authenticate_verify face_encodings encode_file cwd fs target_user img_input audio_file)
    \<longleftrightarrow>
    (\<exists>img_bytes wav_bytes face_live voice_live face_stored voice_stored meta face_score voice_score.
       target_user \<noteq> [] \<and> img_input = Some img_bytes \<and> audio_file = Some wav_bytes
       \<and> get_face_encoding_from_image face_encodings img_bytes = Inr face_live
       \<and> get_voice_embedding_from_wav encode_file wav_bytes = Inr voice_live
       \<and> load_user_embeddings cwd BASE_USERS_DIR target_user fs
           = Inr (face_stored, voice_stored, meta)
       \<and> is_face_match face_live face_stored face_threshold_default = Inr (True, face_score)
       \<and> is_voice_match voice_live voice_stored voice_threshold_default = Inr (True, voice_score))"
    unfolding authenticate_verify_def
    by (auto simp: granted_show split: option.splits sum.splits prod.splits)
      (simp_all add: granted_def)
  then show ?thesis
    by (simp add: face_match_example voice_match_example granted_show)
qed

text \<open>
  C5, as the code has it. The handler extracts the face encoding first, the voice
  embedding second, and reads the store third. For a username without a stored
  template it therefore reports the failure of the face extractor if there is one,
  else the failure of the voice extractor if there is one, and
  \<^verbatim>\<open>FileNotFoundError("User not found")\<close> only when both extractions succeed.
\<close>

theorem verify_unknown_user_order:
  assumes "target_user \<noteq> []"
    and "\<not> exists cwd fs (truediv (Path BASE_USERS_DIR) target_user)"
  shows "authenticate_verify face_encodings encode_file cwd fs target_user
           (Some img_bytes) (Some wav_bytes)
         = [St_exception
             (case get_face_encoding_from_image face_encodings img_bytes of
                Inl e \<Rightarrow> e
              | Inr _ \<Rightarrow>
                  (case get_voice_embedding_from_wav encode_file wav_bytes of
                     Inl e \<Rightarrow> e
                   | Inr _ \<Rightarrow> FileNotFoundError ''User not found''))]"
  using assms
  by (simp add: authenticate_verify_def load_user_embeddings_def split: sum.splits)

theorem verify_unknown_user_order_witness:
  "''ghost'' \<noteq> [] \<and> \<not> exists [] [] (truediv (Path BASE_USERS_DIR) ''ghost'')
   \<and> authenticate_verify (\<lambda>_. Inr [[1]]) (\<lambda>_. Inr [1]) [] [] ''ghost'' (Some ''img'') (Some ''wav'')
       = [St_exception (FileNotFoundError ''User not found'')]"
proof -
  have h: "\<not> exists [] [] (truediv (Path BASE_USERS_DIR) ''ghost'')"
    by code_simp
  show ?thesis
    using h verify_unknown_user_order [where target_user = "''ghost''" and cwd = "[]" and fs = "[]"
        and face_encodings = "\<lambda>_. Inr [[1]]" and img_bytes = "''img''"
        and encode_file = "\<lambda>_. Inr [1]" and wav_bytes = "''wav''"]
    by (simp add: get_face_encoding_from_image_def get_voice_embedding_from_wav_def)
qed

text \<open>
  The claim as worded fails: nobody is enrolled, and the handler reports that no face
  was found, not that the user is unknown.
\<close>

theorem verify_unknown_user_counterexample:
  "load_user_embeddings [] BASE_USERS_DIR ''ghost'' [] = Inl (FileNotFoundError ''User not found'')
   \<and> authenticate_verify (\<lambda>_. Inr []) (\<lambda>_. Inr [1]) [] [] ''ghost'' (Some ''img'') (Some ''wav'')
       = [St_exception
            (ValueError ''No face found in the image. Please upload a clear face image.'')]"
proof -
  have "load_user_embeddings [] BASE_USERS_DIR ''ghost'' []
        = Inl (FileNotFoundError ''User not found'')"
    by code_simp
  moreover have "authenticate_verify (\<lambda>_. Inr []) (\<lambda>_. Inr [1]) [] [] ''ghost''
                   (Some ''img'') (Some ''wav'')
       = [St_exception
            (ValueError ''No face found in the image. Please upload a clear face image.'')]"
    by (simp add: authenticate_verify_def get_face_encoding_from_image_def)
  ultimately show ?thesis by simp
qed

subsection \<open>Paths and the file system\<close>

lemma node_at_put:
  "node_at (put l n fs) l' = (if l' = [] then Some Dir else if l' = l then Some n else node_at fs l')"
  by (simp add: node_at_def put_def update_conv')

lemma walk_append:
  "walk fs s (cs @ ds) = (case walk fs s cs of Inl e \<Rightarrow> Inl e | Inr l \<Rightarrow> walk fs l ds)"
  by (induction cs arbitrary: s) (auto split: option.splits node.splits)

lemma walk_single:
  "walk fs l [c] =
     (case node_at fs l of
        None \<Rightarrow> Inl ENOENT
      | Some (File _) \<Rightarrow> Inl NotADirectoryError
      | Some Dir \<Rightarrow> Inr (if c = ''..'' then butlast l else l @ [c]))"
  by (simp split: option.splits node.splits)

lemma walk_snoc_Inr:
  assumes "walk fs s (cs @ [c]) = Inr l"
  shows "\<exists>l0. walk fs s cs = Inr l0 \<and> node_at fs l0 = Some Dir
              \<and> l = (if c = ''..'' then butlast l0 else l0 @ [c])"
  using assms unfolding walk_append
  by (auto split: sum.splits option.splits node.splits)

lemma walk_put:
  assumes "walk fs s cs = Inr l" and "node_at fs l' \<noteq> Some Dir"
  shows "walk (put l' n fs) s cs = Inr l"
  using assms
proof (induction cs arbitrary: s)
  case Nil
  then show ?case by simp
next
  case (Cons c cs)
  from Cons.prems(1) have d: "node_at fs s = Some Dir"
    by (auto split: option.splits node.splits)
  with Cons.prems(2) have "s \<noteq> l'" by auto
  with d have d': "node_at (put l' n fs) s = Some Dir"
    by (simp add: node_at_put)
  from Cons.prems(1) d have "walk fs (if c = ''..'' then butlast s else s @ [c]) cs = Inr l"
    by simp
  from Cons.IH [OF this Cons.prems(2)] d' show ?case by simp
qed

lemma split_sep_no_slash: "CHR ''/'' \<notin> set s \<Longrightarrow> split_sep s = [s]"
  by (induction s) auto

lemma Path_valid_name: "valid_name u \<Longrightarrow> Path u = PyPath False [u]"
  by (cases u) (auto simp: valid_name_def Path_def split_sep_no_slash)

lemma Path_users: "Path BASE_USERS_DIR = PyPath False [''users'']"
  by (simp add: Path_def BASE_USERS_DIR_def)

lemma truediv_face: "truediv p ''face_enc.npy'' = PyPath (is_absolute p) (parts p @ [''face_enc.npy''])"
  by (simp add: truediv_def Path_def)

lemma truediv_voice: "truediv p ''voice_enc.npy'' = PyPath (is_absolute p) (parts p @ [''voice_enc.npy''])"
  by (simp add: truediv_def Path_def)

lemma truediv_meta: "truediv p ''meta.json'' = PyPath (is_absolute p) (parts p @ [''meta.json''])"
  by (simp add: truediv_def Path_def)

lemma truediv_valid_name:
  "valid_name u \<Longrightarrow> truediv p u = PyPath (is_absolute p) (parts p @ [u])"
  by (simp add: truediv_def Path_valid_name)

lemma write_file_Inr:
  assumes "write_file cwd p c fs = Inr fs'"
  shows "\<exists>l. resolve cwd fs p = Inr l \<and> node_at fs l \<noteq> Some Dir \<and> fs' = put l (File c) fs"
  using assms unfolding write_file_def
  by (auto split: sum.splits option.splits node.splits)

lemma ensure_user_dir_Inr:
  assumes "ensure_user_dir cwd base_dir username fs = (Inr ud, fs1)"
  shows "ud = truediv (Path base_dir) username"
  using assms unfolding ensure_user_dir_def Let_def
  by (auto split: prod.splits sum.splits)

subsection \<open>Saving and loading a template\<close>

lemma meta_or_new_stored:
  assumes "valid_ref h meta" and "meta_or_new meta h = (r, h1)"
  shows "(h1[r := dict_update k x (h1 ! r)]) ! r = dict_update k x (caller_dict h meta)"
  using assms
  by (auto simp: valid_ref_def caller_dict_def meta_or_new_def nth_append
      split: option.splits if_splits)

lemma meta_or_new_heap:
  assumes "meta_or_new meta h = (r, h1)"
  shows "h1[r := dict_update k x (h1 ! r)] =
         (case meta of
            None \<Rightarrow> h @ [dict_update k x []]
          | Some r0 \<Rightarrow> if h ! r0 = [] then h @ [dict_update k x []]
                        else h[r0 := dict_update k x (h ! r0)])"
  using assms
  by (auto simp: meta_or_new_def nth_append split: option.splits if_splits)

text \<open>What a successful save leaves behind.\<close>

lemma save_Inr_shape:
  assumes s: "save_user_embeddings cwd base_dir username face_enc voice_enc meta (fs, h)
              = (Inr (), fs', h')"
    and ud: "truediv (Path base_dir) username = PyPath ab ps"
  shows "\<exists>fs1 l0 r h1.
           walk fs1 (if ab then [] else cwd) ps = Inr l0 \<and> node_at fs1 l0 = Some Dir
         \<and> node_at fs1 (l0 @ [''face_enc.npy'']) \<noteq> Some Dir
         \<and> node_at fs1 (l0 @ [''voice_enc.npy'']) \<noteq> Some Dir
         \<and> node_at fs1 (l0 @ [''meta.json'']) \<noteq> Some Dir
         \<and> meta_or_new meta h = (r, h1)
         \<and> h' = h1[r := dict_update ''username'' (JStr username) (h1 ! r)]
         \<and> fs' = put (l0 @ [''meta.json'']) (File (JsonObj (h' ! r)))
                   (put (l0 @ [''voice_enc.npy'']) (File (Npy voice_enc))
                     (put (l0 @ [''face_enc.npy'']) (File (Npy face_enc)) fs1))"
proof -
  let ?st = "if ab then [] else cwd"
  from s obtain ud0 fs1 fs2 fs3 r h1 where
    e: "ensure_user_dir cwd base_dir username fs = (Inr ud0, fs1)"
    and w1: "np_save cwd (truediv ud0 ''face_enc.npy'') face_enc fs1 = Inr fs2"
    and w2: "np_save cwd (truediv ud0 ''voice_enc.npy'') voice_enc fs2 = Inr fs3"
    and m: "meta_or_new meta h = (r, h1)"
    and h': "h' = h1[r := dict_update ''username'' (JStr username) (h1 ! r)]"
    and w3: "write_file cwd (truediv ud0 ''meta.json'') (JsonObj (h' ! r)) fs3 = Inr fs'"
    unfolding save_user_embeddings_def Let_def
    by (auto split: prod.splits sum.splits)
  from ensure_user_dir_Inr [OF e] ud have ud0: "ud0 = PyPath ab ps" by simp
  from write_file_Inr [OF w1 [unfolded np_save_def]] obtain lf where
    lf: "walk fs1 ?st (ps @ [''face_enc.npy'']) = Inr lf" "node_at fs1 lf \<noteq> Some Dir"
        "fs2 = put lf (File (Npy face_enc)) fs1"
    by (auto simp: ud0 truediv_face resolve_def)
  from walk_snoc_Inr [OF lf(1)] obtain l0 where
    l0: "walk fs1 ?st ps = Inr l0" "node_at fs1 l0 = Some Dir" "lf = l0 @ [''face_enc.npy'']"
    by auto
  from write_file_Inr [OF w2 [unfolded np_save_def]] obtain lv where
    lv: "walk fs2 ?st (ps @ [''voice_enc.npy'']) = Inr lv" "node_at fs2 lv \<noteq> Some Dir"
        "fs3 = put lv (File (Npy voice_enc)) fs2"
    by (auto simp: ud0 truediv_voice resolve_def)
  have l0_2: "walk fs2 ?st ps = Inr l0"
    unfolding lf(3) by (rule walk_put [OF l0(1) lf(2)])
  from walk_snoc_Inr [OF lv(1)] l0_2 have lv_eq: "lv = l0 @ [''voice_enc.npy'']"
    by auto
  from write_file_Inr [OF w3] obtain lm where
    lm: "walk fs3 ?st (ps @ [''meta.json'']) = Inr lm" "node_at fs3 lm \<noteq> Some Dir"
        "fs' = put lm (File (JsonObj (h' ! r))) fs3"
    by (auto simp: ud0 truediv_meta resolve_def)
  have l0_3: "walk fs3 ?st ps = Inr l0"
    unfolding lv(3) by (rule walk_put [OF l0_2 lv(2)])
  from walk_snoc_Inr [OF lm(1)] l0_3 have lm_eq: "lm = l0 @ [''meta.json'']"
    by auto
  from lv(2) have nv: "node_at fs1 (l0 @ [''voice_enc.npy'']) \<noteq> Some Dir"
    by (simp add: lv_eq lf(3) l0(3) node_at_put)
  from lm(2) have nm: "node_at fs1 (l0 @ [''meta.json'']) \<noteq> Some Dir"
    by (simp add: lm_eq lv(3) lv_eq lf(3) l0(3) node_at_put)
  from l0 lf lv lm lv_eq lm_eq nv nm m h' show ?thesis
    by blast
qed

text \<open>Reading back a directory that holds the three files.\<close>

lemma load_after_puts:
  assumes ud: "truediv (Path base_dir) username = PyPath ab ps"
    and w: "walk fs1 (if ab then [] else cwd) ps = Inr l0"
    and d: "node_at fs1 l0 = Some Dir"
    and nf: "node_at fs1 (l0 @ [''face_enc.npy'']) \<noteq> Some Dir"
    and nv: "node_at fs1 (l0 @ [''voice_enc.npy'']) \<noteq> Some Dir"
    and nm: "node_at fs1 (l0 @ [''meta.json'']) \<noteq> Some Dir"
    and fs': "fs' = put (l0 @ [''meta.json'']) (File (JsonObj m))
                   (put (l0 @ [''voice_enc.npy'']) (File (Npy voice_enc))
                     (put (l0 @ [''face_enc.npy'']) (File (Npy face_enc)) fs1))"
  shows "load_user_embeddings cwd base_dir username fs' = Inr (face_enc, voice_enc, m)"
proof -
  let ?st = "if ab then [] else cwd"
  let ?fs2 = "put (l0 @ [''face_enc.npy'']) (File (Npy face_enc)) fs1"
  let ?fs3 = "put (l0 @ [''voice_enc.npy'']) (File (Npy voice_enc)) ?fs2"
  have w2: "walk ?fs2 ?st ps = Inr l0" by (rule walk_put [OF w nf])
  have nv2: "node_at ?fs2 (l0 @ [''voice_enc.npy'']) \<noteq> Some Dir"
    using nv by (simp add: node_at_put)
  have w3: "walk ?fs3 ?st ps = Inr l0" by (rule walk_put [OF w2 nv2])
  have nm3: "node_at ?fs3 (l0 @ [''meta.json'']) \<noteq> Some Dir"
    using nm by (simp add: node_at_put)
  have w4: "walk fs' ?st ps = Inr l0" unfolding fs' by (rule walk_put [OF w3 nm3])
  have d4: "node_at fs' l0 = Some Dir"
    using d by (simp add: fs' node_at_put)
  have r: "resolve cwd fs' (PyPath ab ps) = Inr l0"
    using w4 by (simp add: resolve_def)
  have rc: "\<And>c. c \<noteq> ''..'' \<Longrightarrow> resolve cwd fs' (PyPath ab (ps @ [c])) = Inr (l0 @ [c])"
    using w4 d4 by (simp add: resolve_def walk_append)
  have ex: "exists cwd fs' (PyPath ab ps)"
    using r d4 by (simp add: exists_def)
  have nf': "node_at fs' (l0 @ [''face_enc.npy'']) = Some (File (Npy face_enc))"
    by (simp add: fs' node_at_put)
  have nv': "node_at fs' (l0 @ [''voice_enc.npy'']) = Some (File (Npy voice_enc))"
    by (simp add: fs' node_at_put)
  have nm': "node_at fs' (l0 @ [''meta.json'']) = Some (File (JsonObj m))"
    by (simp add: fs' node_at_put)
  have f: "np_load cwd (PyPath ab (ps @ [''face_enc.npy''])) fs' = Inr face_enc"
    by (simp add: np_load_def read_file_def rc nf')
  have v: "np_load cwd (PyPath ab (ps @ [''voice_enc.npy''])) fs' = Inr voice_enc"
    by (simp add: np_load_def read_file_def rc nv')
  have me: "exists cwd fs' (PyPath ab (ps @ [''meta.json'']))"
    by (simp add: exists_def rc nm')
  have j: "json_load cwd (PyPath ab (ps @ [''meta.json''])) fs' = Inr m"
    by (simp add: json_load_def read_file_def rc nm')
  show ?thesis
    unfolding load_user_embeddings_def Let_def ud
    by (simp add: truediv_face truediv_voice truediv_meta ex f v me j)
qed

lemma save_then_load:
  assumes s: "save_user_embeddings cwd base_dir username face_enc voice_enc meta (fs, h)
              = (Inr (), fs', h')"
    and vr: "valid_ref h meta"
  shows "load_user_embeddings cwd base_dir username fs'
         = Inr (face_enc, voice_enc, dict_update ''username'' (JStr username) (caller_dict h meta))"
proof -
  obtain ab ps where ud: "truediv (Path base_dir) username = PyPath ab ps"
    by (cases "truediv (Path base_dir) username") auto
  from save_Inr_shape [OF s ud] obtain fs1 l0 r h1 where
    sh: "walk fs1 (if ab then [] else cwd) ps = Inr l0" "node_at fs1 l0 = Some Dir"
        "node_at fs1 (l0 @ [''face_enc.npy'']) \<noteq> Some Dir"
        "node_at fs1 (l0 @ [''voice_enc.npy'']) \<noteq> Some Dir"
        "node_at fs1 (l0 @ [''meta.json'']) \<noteq> Some Dir"
        "meta_or_new meta h = (r, h1)"
        "h' = h1[r := dict_update ''username'' (JStr username) (h1 ! r)]"
        "fs' = put (l0 @ [''meta.json'']) (File (JsonObj (h' ! r)))
                   (put (l0 @ [''voice_enc.npy'']) (File (Npy voice_enc))
                     (put (l0 @ [''face_enc.npy'']) (File (Npy face_enc)) fs1))"
    by blast
  have "h' ! r = dict_update ''username'' (JStr username) (caller_dict h meta)"
    unfolding sh(7) by (rule meta_or_new_stored [OF vr sh(6)])
  with load_after_puts [OF ud sh(1-5) sh(8)] show ?thesis by simp
qed

lemma save_heap:
  assumes s: "save_user_embeddings cwd base_dir username face_enc voice_enc meta (fs, h)
              = (Inr (), fs', h')"
  shows "h' = (case meta of
                 None \<Rightarrow> h @ [[(''username'', JStr username)]]
               | Some r \<Rightarrow>
                   if h ! r = [] then h @ [[(''username'', JStr username)]]
                   else h[r := dict_update ''username'' (JStr username) (h ! r)])"
proof -
  obtain ab ps where ud: "truediv (Path base_dir) username = PyPath ab ps"
    by (cases "truediv (Path base_dir) username") auto
  from save_Inr_shape [OF s ud] obtain r h1 where
    "meta_or_new meta h = (r, h1)"
    "h' = h1[r := dict_update ''username'' (JStr username) (h1 ! r)]"
    by blast
  with meta_or_new_heap [of meta h r h1 "''username''" "JStr username"]
  have "h' = (case meta of
                None \<Rightarrow> h @ [dict_update ''username'' (JStr username) []]
              | Some r0 \<Rightarrow>
                  if h ! r0 = [] then h @ [dict_update ''username'' (JStr username) []]
                  else h[r0 := dict_update ''username'' (JStr username) (h ! r0)])"
    by simp
  moreover have "dict_update ''username'' (JStr username) [] = [(''username'', JStr username)]"
    by (simp add: dict_update_def)
  ultimately show ?thesis by (simp split: option.splits)
qed

text \<open>
  C6. When \<^verbatim>\<open>save_user_embeddings\<close> returns, \<^verbatim>\<open>load_user_embeddings\<close> for the same
  store root and username returns the face vector and the voice vector that were
  saved, and a metadata dict that maps \<^verbatim>\<open>username\<close> to the username, has every key of
  the caller's metadata, and agrees with it on every other key.
\<close>

theorem create_read_roundtrip:
  assumes "save_user_embeddings cwd base_dir u f v meta (fs, h) = (Inr (), fs', h')"
    and "valid_ref h meta"
  shows "\<exists>m'. load_user_embeddings cwd base_dir u fs' = Inr (f, v, m')
             \<and> map_of m' ''username'' = Some (JStr u)
             \<and> fst ` set (caller_dict h meta) \<subseteq> fst ` set m'
             \<and> (\<forall>k. k \<noteq> ''username'' \<longrightarrow> map_of m' k = map_of (caller_dict h meta) k)"
proof -
  let ?m = "dict_update ''username'' (JStr u) (caller_dict h meta)"
  have "load_user_embeddings cwd base_dir u fs' = Inr (f, v, ?m)"
    using assms by (rule save_then_load)
  moreover have "map_of ?m ''username'' = Some (JStr u)"
    by (simp add: dict_update_def update_conv')
  moreover have "fst ` set (caller_dict h meta) \<subseteq> fst ` set ?m"
    by (auto simp: dict_update_def dom_update)
  moreover have "\<forall>k. k \<noteq> ''username'' \<longrightarrow> map_of ?m k = map_of (caller_dict h meta) k"
    by (simp add: dict_update_def update_conv')
  ultimately show ?thesis by blast
qed

lemma save_alice:
  "save_user_embeddings [] ''users'' ''alice'' [1, 0] [0, 1] (Some 0) ([], [[(''role'', JStr ''admin'')]])
   = (Inr (),
      [([''users''], Dir), ([''users'', ''alice''], Dir),
       ([''users'', ''alice'', ''face_enc.npy''], File (Npy [1, 0])),
       ([''users'', ''alice'', ''voice_enc.npy''], File (Npy [0, 1])),
       ([''users'', ''alice'', ''meta.json''],
        File (JsonObj [(''role'', JStr ''admin''), (''username'', JStr ''alice'')]))],
      [[(''role'', JStr ''admin''), (''username'', JStr ''alice'')]])"
  by code_simp

theorem create_read_roundtrip_witness:
  "valid_ref [[(''role'', JStr ''admin'')]] (Some 0)
   \<and> (\<exists>m'. load_user_embeddings [] ''users'' ''alice''
              (fst (snd (save_user_embeddings [] ''users'' ''alice'' [1, 0] [0, 1] (Some 0)
                           ([], [[(''role'', JStr ''admin'')]]))))
            = Inr ([1, 0], [0, 1], m')
          \<and> map_of m' ''username'' = Some (JStr ''alice'')
          \<and> map_of m' ''role'' = Some (JStr ''admin''))"
proof -
  have vr: "valid_ref [[(''role'', JStr ''admin'')]] (Some 0)"
    by (simp add: valid_ref_def)
  have cd: "map_of (caller_dict [[(''role'', JStr ''admin'')]] (Some 0)) ''role''
            = Some (JStr ''admin'')"
    by (simp add: caller_dict_def)
  from create_read_roundtrip [OF save_alice vr] obtain m' where
    l: "load_user_embeddings [] ''users'' ''alice''
       [([''users''], Dir), ([''users'', ''alice''], Dir),
        ([''users'', ''alice'', ''face_enc.npy''], File (Npy [1, 0])),
        ([''users'', ''alice'', ''voice_enc.npy''], File (Npy [0, 1])),
        ([''users'', ''alice'', ''meta.json''],
         File (JsonObj [(''role'', JStr ''admin''), (''username'', JStr ''alice'')]))]
     = Inr ([1, 0], [0, 1], m')"
    and u: "map_of m' ''username'' = Some (JStr ''alice'')"
    and k: "\<forall>k. k \<noteq> ''username'' \<longrightarrow>
              map_of m' k = map_of (caller_dict [[(''role'', JStr ''admin'')]] (Some 0)) k"
    by blast
  from k have "map_of m' ''role'' = map_of (caller_dict [[(''role'', JStr ''admin'')]] (Some 0)) ''role''"
    by simp
  with cd have r: "map_of m' ''role'' = Some (JStr ''admin'')" by simp
  have "\<exists>m'. load_user_embeddings [] ''users'' ''alice''
              (fst (snd (save_user_embeddings [] ''users'' ''alice'' [1, 0] [0, 1] (Some 0)
                           ([], [[(''role'', JStr ''admin'')]]))))
            = Inr ([1, 0], [0, 1], m')
          \<and> map_of m' ''username'' = Some (JStr ''alice'')
          \<and> map_of m' ''role'' = Some (JStr ''admin'')"
    unfolding save_alice fst_conv snd_conv using l u r by blast
  with vr show ?thesis by blast
qed

text \<open>
  C10, as the code has it. When \<^verbatim>\<open>save_user_embeddings\<close> returns and the caller
  passed a non-empty dict, that dict object itself has been updated with the
  \<^verbatim>\<open>username\<close> entry; when the caller passed \<^verbatim>\<open>None\<close> or an empty dict, a new dict
  holding only that entry has been made and every dict of the caller is as it was. In
  both cases the updated dict is what \<^verbatim>\<open>meta.json\<close> holds.
\<close>

theorem save_meta_aliasing:
  assumes "save_user_embeddings cwd base_dir username face_enc voice_enc meta (fs, h)
           = (Inr (), fs', h')"
    and "valid_ref h meta"
  shows "h' = (case meta of
                 None \<Rightarrow> h @ [[(''username'', JStr username)]]
               | Some r \<Rightarrow>
                   if h ! r = [] then h @ [[(''username'', JStr username)]]
                   else h[r := dict_update ''username'' (JStr username) (h ! r)])
       \<and> load_user_embeddings cwd base_dir username fs'
           = Inr (face_enc, voice_enc,
                  dict_update ''username'' (JStr username) (caller_dict h meta))"
  using save_heap [OF assms(1)] save_then_load [OF assms] by simp

theorem save_meta_aliasing_witness:
  "valid_ref [[(''role'', JStr ''admin'')]] (Some 0)
   \<and> snd (snd (save_user_embeddings [] ''users'' ''alice'' [1, 0] [0, 1] (Some 0)
                 ([], [[(''role'', JStr ''admin'')]])))
     = [[(''role'', JStr ''admin''), (''username'', JStr ''alice'')]]"
proof -
  have vr: "valid_ref [[(''role'', JStr ''admin'')]] (Some 0)"
    by (simp add: valid_ref_def)
  from save_meta_aliasing [OF save_alice vr] vr show ?thesis
    by (simp add: save_alice)
qed

text \<open>
  The claim as worded fails for an empty dict, which is not \<^verbatim>\<open>None\<close>: after the call
  the caller's dict (reference 0) is still empty and the entry is in a new dict.
\<close>

theorem save_meta_empty_dict_counterexample:
  "snd (snd (save_user_embeddings [] ''users'' ''alice'' [1, 0] [0, 1] (Some 0) ([], [[]])))
   = [[], [(''username'', JStr ''alice'')]]"
  by code_simp

subsection \<open>Listing the users\<close>

lemma wf_fs_lookup: "wf_fs fs \<Longrightarrow> e \<in> set fs \<Longrightarrow> node_at fs (fst e) = Some (snd e)"
  by (cases e) (auto simp: wf_fs_def node_at_def)

lemma wf_fs_last_valid: "wf_fs fs \<Longrightarrow> e \<in> set fs \<Longrightarrow> valid_name (last (fst e))"
proof -
  assume "wf_fs fs" and "e \<in> set fs"
  then have "fst e \<noteq> []" and "list_all valid_name (fst e)"
    by (auto simp: wf_fs_def)
  then show ?thesis by (simp add: list_all_iff)
qed

lemma node_at_mem:
  assumes "node_at fs l = Some n" and "l \<noteq> []"
  shows "(l, n) \<in> set fs"
  using assms by (auto simp: node_at_def dest: map_of_SomeD)

lemma child_is_dir:
  assumes wf: "wf_fs fs"
    and r: "walk fs st ps = Inr l" and d: "node_at fs l = Some Dir"
    and e: "e \<in> set fs" "fst e \<noteq> []" "butlast (fst e) = l"
    and that: "st = (if ab then [] else cwd)"
  shows "is_dir cwd fs (PyPath ab (ps @ [last (fst e)])) = (snd e = Dir)"
proof -
  have v: "last (fst e) \<noteq> ''..''"
    using wf_fs_last_valid [OF wf e(1)] by (auto simp: valid_name_def)
  have "l @ [last (fst e)] = fst e"
    using e(2,3) by (metis append_butlast_last_id)
  with r d v that have "resolve cwd fs (PyPath ab (ps @ [last (fst e)])) = Inr (fst e)"
    by (simp add: resolve_def walk_append)
  with wf_fs_lookup [OF wf e(1)] show ?thesis
    by (simp add: is_dir_def)
qed

lemma list_users_dir:
  assumes wf: "wf_fs fs"
    and r: "resolve cwd fs (Path base_dir) = Inr l" and d: "node_at fs l = Some Dir"
  shows "list_users cwd base_dir fs
         = Inr (map (\<lambda>e. last (fst e))
                 (filter (\<lambda>e. snd e = Dir)
                    (filter (\<lambda>e. fst e \<noteq> [] \<and> butlast (fst e) = l) fs)))"
proof -
  obtain ab ps where p: "Path base_dir = PyPath ab ps"
    by (cases "Path base_dir") auto
  let ?ch = "filter (\<lambda>e. fst e \<noteq> [] \<and> butlast (fst e) = l) fs"
  let ?mk = "\<lambda>e. PyPath ab (ps @ [last (fst e)])"
  from r p have w: "walk fs (if ab then [] else cwd) ps = Inr l"
    by (simp add: resolve_def)
  have ex: "exists cwd fs (PyPath ab ps)"
    using r d p by (simp add: exists_def)
  have it: "iterdir cwd fs (PyPath ab ps) = Inr (map ?mk ?ch)"
    using r d p by (simp add: iterdir_def)
  have f: "filter (is_dir cwd fs) (map ?mk ?ch) = map ?mk (filter (\<lambda>e. snd e = Dir) ?ch)"
    unfolding filter_map comp_def
  proof (rule arg_cong [where f = "map ?mk"], rule filter_cong [OF refl])
    fix e assume "e \<in> set ?ch"
    then have "e \<in> set fs" "fst e \<noteq> []" "butlast (fst e) = l" by auto
    from child_is_dir [OF wf w d this refl]
    show "is_dir cwd fs (PyPath ab (ps @ [last (fst e)])) = (snd e = Dir)" .
  qed
  have n: "map name (map ?mk xs) = map (\<lambda>e. last (fst e)) xs" for xs
    by (simp add: name_def)
  have "list_users cwd base_dir fs = Inr (map name (filter (is_dir cwd fs) (map ?mk ?ch)))"
    unfolding list_users_def Let_def p using ex it by simp
  then show ?thesis
    unfolding f n .
qed

lemma children_set:
  assumes wf: "wf_fs fs"
  shows "set (map (\<lambda>e. last (fst e))
                 (filter (\<lambda>e. snd e = Dir)
                    (filter (\<lambda>e. fst e \<noteq> [] \<and> butlast (fst e) = l) fs)))
         = {n. node_at fs (l @ [n]) = Some Dir}"
proof (intro set_eqI iffI)
  fix n
  assume "n \<in> set (map (\<lambda>e. last (fst e))
                 (filter (\<lambda>e. snd e = Dir)
                    (filter (\<lambda>e. fst e \<noteq> [] \<and> butlast (fst e) = l) fs)))"
  then obtain e where e: "e \<in> set fs" "snd e = Dir" "fst e \<noteq> []" "butlast (fst e) = l"
      "n = last (fst e)"
    by auto
  then have "l @ [n] = fst e" by (metis append_butlast_last_id)
  with wf_fs_lookup [OF wf e(1)] e(2) show "n \<in> {n. node_at fs (l @ [n]) = Some Dir}"
    by simp
next
  fix n
  assume "n \<in> {n. node_at fs (l @ [n]) = Some Dir}"
  then have "(l @ [n], Dir) \<in> set fs" by (auto intro: node_at_mem)
  then have "(l @ [n], Dir) \<in> set (filter (\<lambda>e. snd e = Dir)
                    (filter (\<lambda>e. fst e \<noteq> [] \<and> butlast (fst e) = l) fs))"
    by simp
  then have "\<exists>e \<in> set (filter (\<lambda>e. snd e = Dir)
                    (filter (\<lambda>e. fst e \<noteq> [] \<and> butlast (fst e) = l) fs)). last (fst e) = n"
    by (intro bexI [of _ "(l @ [n], Dir)"]) simp_all
  then show "n \<in> set (map (\<lambda>e. last (fst e))
                 (filter (\<lambda>e. snd e = Dir)
                    (filter (\<lambda>e. fst e \<noteq> [] \<and> butlast (fst e) = l) fs)))"
    unfolding set_map by blast
qed

lemma children_distinct:
  assumes wf: "wf_fs fs"
  shows "distinct (map (\<lambda>e. last (fst e))
                 (filter (\<lambda>e. snd e = Dir)
                    (filter (\<lambda>e. fst e \<noteq> [] \<and> butlast (fst e) = l) fs)))"
proof -
  define xs where "xs = filter (\<lambda>e. snd e = Dir)
                          (filter (\<lambda>e. fst e \<noteq> [] \<and> butlast (fst e) = l) fs)"
  from wf have "distinct (map fst fs)" by (simp add: wf_fs_def)
  then have "distinct (map fst xs)" unfolding xs_def by (intro distinct_map_filter)
  moreover have "map fst xs = map (\<lambda>n. l @ [n]) (map (\<lambda>e. last (fst e)) xs)"
    unfolding map_map comp_def
  proof (rule map_cong [OF refl])
    fix e assume "e \<in> set xs"
    then have "fst e \<noteq> []" "butlast (fst e) = l" by (auto simp: xs_def)
    then show "fst e = l @ [last (fst e)]" by (metis append_butlast_last_id)
  qed
  ultimately have "distinct (map (\<lambda>n. l @ [n]) (map (\<lambda>e. last (fst e)) xs))" by simp
  then have "distinct (map (\<lambda>e. last (fst e)) xs)"
    unfolding distinct_map [where f = "\<lambda>n. l @ [n]"] by blast
  then show ?thesis unfolding xs_def .
qed

lemma wf_alice:
  "wf_fs [([''users''], Dir), ([''users'', ''alice''], Dir),
       ([''users'', ''alice'', ''face_enc.npy''], File (Npy [1, 0])),
       ([''users'', ''alice'', ''voice_enc.npy''], File (Npy [0, 1])),
       ([''users'', ''alice'', ''meta.json''],
        File (JsonObj [(''role'', JStr ''admin''), (''username'', JStr ''alice'')]))]"
  by (simp add: wf_fs_def node_at_def valid_name_def)

subsection \<open>Usernames that are entry names\<close>

lemma resolve_child:
  assumes "walk fs (if ab then [] else cwd) ps = Inr lb" and "node_at fs lb = Some Dir"
    and "u \<noteq> ''..''"
  shows "resolve cwd fs (PyPath ab (ps @ [u])) = Inr (lb @ [u])"
  using assms by (simp add: resolve_def walk_append)

lemma resolve_grandchild:
  assumes "walk fs (if ab then [] else cwd) ps = Inr lb" and "node_at fs lb = Some Dir"
    and "u \<noteq> ''..''" and "c \<noteq> ''..''"
  shows "resolve cwd fs (PyPath ab (ps @ [u, c])) =
           (case node_at fs (lb @ [u]) of
              None \<Rightarrow> Inl ENOENT
            | Some (File _) \<Rightarrow> Inl NotADirectoryError
            | Some Dir \<Rightarrow> Inr (lb @ [u, c]))"
  using assms by (simp add: resolve_def walk_append split: option.splits node.splits)

lemma mkdir_parents_existing:
  assumes "resolve cwd fs p = Inr l" and "node_at fs l = Some Dir"
  shows "mkdir_parents cwd p fs = (Inr (), fs)"
proof -
  have p: "PyPath (is_absolute p) (parts p) = p" by simp
  have m: "os_mkdir cwd fs p = Inl FileExistsError"
    using assms by (simp add: os_mkdir_def)
  have d: "is_dir cwd fs p" using assms by (simp add: is_dir_def)
  show ?thesis
  proof (cases "rev (parts p)")
    case Nil
    then have "parts p = []" by simp
    with p have "PyPath (is_absolute p) [] = p" by simp
    with Nil m d show ?thesis by (simp add: mkdir_parents_def)
  next
    case (Cons c rs)
    then have "rev (c # rs) = parts p" by (metis rev_rev_ident)
    with p have q: "PyPath (is_absolute p) (rev (c # rs)) = p" by simp
    have "mkdir_parents_rev cwd (is_absolute p) (c # rs) fs = (Inr (), fs)"
      unfolding mkdir_parents_rev.simps q m using d by simp
    then show ?thesis by (simp only: mkdir_parents_def Cons)
  qed
qed

lemma mkdir_child:
  assumes w: "walk fs (if ab then [] else cwd) ps = Inr lb" and d: "node_at fs lb = Some Dir"
    and u: "u \<noteq> ''..''"
  shows "mkdir_parents cwd (PyPath ab (ps @ [u])) fs =
           (case node_at fs (lb @ [u]) of
              None \<Rightarrow> (Inr (), put (lb @ [u]) Dir fs)
            | Some Dir \<Rightarrow> (Inr (), fs)
            | Some (File _) \<Rightarrow> (Inl FileExistsError, fs))"
proof -
  have r: "resolve cwd fs (PyPath ab (ps @ [u])) = Inr (lb @ [u])"
    by (rule resolve_child [OF w d u])
  have m: "os_mkdir cwd fs (PyPath ab (ps @ [u])) =
             (case node_at fs (lb @ [u]) of
                None \<Rightarrow> Inr (put (lb @ [u]) Dir fs) | Some _ \<Rightarrow> Inl FileExistsError)"
    using u by (simp add: os_mkdir_def r split: option.splits)
  have i: "is_dir cwd fs (PyPath ab (ps @ [u])) = (node_at fs (lb @ [u]) = Some Dir)"
    by (simp add: is_dir_def r)
  have "mkdir_parents cwd (PyPath ab (ps @ [u])) fs
        = mkdir_parents_rev cwd ab (u # rev ps) fs"
    by (simp add: mkdir_parents_def)
  also have "\<dots> = (case node_at fs (lb @ [u]) of
              None \<Rightarrow> (Inr (), put (lb @ [u]) Dir fs)
            | Some Dir \<Rightarrow> (Inr (), fs)
            | Some (File _) \<Rightarrow> (Inl FileExistsError, fs))"
    by (simp add: m i split: option.splits node.splits)
  finally show ?thesis .
qed

lemma node_at_root: "node_at fs [] = Some Dir"
  by (simp add: node_at_def)

lemma ensure_user_dir_valid:
  assumes p: "Path base_dir = PyPath ab ps"
    and w: "walk fs (if ab then [] else cwd) ps = Inr lb" and d: "node_at fs lb = Some Dir"
    and vn: "valid_name u"
  shows "ensure_user_dir cwd base_dir u fs =
           (case node_at fs (lb @ [u]) of
              None \<Rightarrow> (Inr (PyPath ab (ps @ [u])), put (lb @ [u]) Dir fs)
            | Some Dir \<Rightarrow> (Inr (PyPath ab (ps @ [u])), fs)
            | Some (File _) \<Rightarrow> (Inl FileExistsError, fs))"
proof -
  from vn have u: "u \<noteq> ''..''" by (simp add: valid_name_def)
  have r: "resolve cwd fs (Path base_dir) = Inr lb"
    using w by (simp add: p resolve_def)
  have b: "mkdir_parents cwd (Path base_dir) fs = (Inr (), fs)"
    by (rule mkdir_parents_existing [OF r d])
  have t: "truediv (Path base_dir) u = PyPath ab (ps @ [u])"
    by (simp add: truediv_valid_name [OF vn] p)
  show ?thesis
    unfolding ensure_user_dir_def Let_def b t
    by (simp add: mkdir_child [OF w d u] split: option.splits node.splits)
qed

lemma write_grandchild_Inr:
  assumes w: "walk fs (if ab then [] else cwd) ps = Inr lb" and d: "node_at fs lb = Some Dir"
    and du: "node_at fs (lb @ [u]) = Some Dir"
    and u: "u \<noteq> ''..''" and c: "c \<noteq> ''..''"
    and wr: "write_file cwd (PyPath ab (ps @ [u, c])) x fs = Inr fs'"
  shows "fs' = put (lb @ [u, c]) (File x) fs" and "node_at fs (lb @ [u, c]) \<noteq> Some Dir"
    and "walk fs' (if ab then [] else cwd) ps = Inr lb"
    and "node_at fs' lb = Some Dir" and "node_at fs' (lb @ [u]) = Some Dir"
proof -
  from write_file_Inr [OF wr] obtain l where
    l: "resolve cwd fs (PyPath ab (ps @ [u, c])) = Inr l" "node_at fs l \<noteq> Some Dir"
       "fs' = put l (File x) fs"
    by blast
  from l(1) resolve_grandchild [OF w d u c] du have le: "l = lb @ [u, c]" by simp
  have "walk fs' (if ab then [] else cwd) ps = Inr lb"
    unfolding l(3) by (rule walk_put [OF w l(2)])
  moreover have "node_at fs' lb = Some Dir" "node_at fs' (lb @ [u]) = Some Dir"
    using d du by (simp_all add: l(3) le node_at_put)
  ultimately show "fs' = put (lb @ [u, c]) (File x) fs"
    and "node_at fs (lb @ [u, c]) \<noteq> Some Dir"
    and "walk fs' (if ab then [] else cwd) ps = Inr lb"
    and "node_at fs' lb = Some Dir" and "node_at fs' (lb @ [u]) = Some Dir"
    using l le by simp_all
qed

lemma save_cases:
  assumes "save_user_embeddings cwd base_dir username face_enc voice_enc meta (fs, h)
           = (res, fs', h')"
  shows "(\<exists>e. ensure_user_dir cwd base_dir username fs = (Inl e, fs'))
       \<or> (\<exists>ud fs1. ensure_user_dir cwd base_dir username fs = (Inr ud, fs1)
            \<and> (fs' = fs1
               \<or> (\<exists>fs2. write_file cwd (truediv ud ''face_enc.npy'') (Npy face_enc) fs1 = Inr fs2
                    \<and> (fs' = fs2
                       \<or> (\<exists>fs3. write_file cwd (truediv ud ''voice_enc.npy'') (Npy voice_enc) fs2
                                   = Inr fs3
                            \<and> (fs' = fs3
                               \<or> (\<exists>m. write_file cwd (truediv ud ''meta.json'') (JsonObj m) fs3
                                         = Inr fs')))))))"
  using assms unfolding save_user_embeddings_def Let_def np_save_def
  by (auto split: prod.splits sum.splits)

lemma frame_put:
  assumes "\<forall>l. l \<notin> S \<longrightarrow> node_at fs1 l = node_at fs l" and "k \<in> S"
  shows "\<forall>l. l \<notin> S \<longrightarrow> node_at (put k n fs1) l = node_at fs l"
  using assms by (auto simp: node_at_put node_at_root)

text \<open>
  With the store root an existing directory and the username a single entry name, a
  save, whether it returns or raises, changes the file system at most at the user
  directory and its three files.
\<close>

lemma save_frame:
  assumes vn: "valid_name u"
    and r: "resolve cwd fs (Path base_dir) = Inr lb" and d: "node_at fs lb = Some Dir"
    and s: "save_user_embeddings cwd base_dir u face_enc voice_enc meta (fs, h) = (res, fs', h')"
  shows "\<forall>l. node_at fs' l \<noteq> node_at fs l \<longrightarrow>
             l \<in> {lb @ [u], lb @ [u, ''face_enc.npy''], lb @ [u, ''voice_enc.npy''],
                   lb @ [u, ''meta.json'']}"
proof -
  let ?S = "{lb @ [u], lb @ [u, ''face_enc.npy''], lb @ [u, ''voice_enc.npy''],
             lb @ [u, ''meta.json'']}"
  let ?st = "if is_absolute (Path base_dir) then [] else cwd"
  obtain ab ps where p: "Path base_dir = PyPath ab ps"
    by (cases "Path base_dir") auto
  from r have w: "walk fs (if ab then [] else cwd) ps = Inr lb"
    by (simp add: p resolve_def)
  from vn have u: "u \<noteq> ''..''" by (simp add: valid_name_def)
  note e = ensure_user_dir_valid [OF p w d vn]
  from save_cases [OF s] consider
      (fail) e' where "ensure_user_dir cwd base_dir u fs = (Inl e', fs')"
    | (dir) ud fs1 where "ensure_user_dir cwd base_dir u fs = (Inr ud, fs1)"
        "fs' = fs1 \<or>
         (\<exists>fs2. write_file cwd (truediv ud ''face_enc.npy'') (Npy face_enc) fs1 = Inr fs2 \<and>
                (fs' = fs2 \<or>
                 (\<exists>fs3. write_file cwd (truediv ud ''voice_enc.npy'') (Npy voice_enc) fs2 =
                        Inr fs3 \<and>
                        (fs' = fs3 \<or>
                         (\<exists>m. write_file cwd (truediv ud ''meta.json'') (JsonObj m) fs3 =
                              Inr fs')))))"
    by blast
  then have goal: "\<forall>l. l \<notin> ?S \<longrightarrow> node_at fs' l = node_at fs l"
  proof cases
    case fail
    with e have "fs' = fs" by (auto split: option.splits node.splits)
    then show ?thesis by simp
  next
    case dir
    note en = dir(1)
    from en e have ud: "ud = PyPath ab (ps @ [u])"
      by (auto split: option.splits node.splits)
    from en e have f1: "fs1 = fs \<or> (node_at fs (lb @ [u]) = None \<and> fs1 = put (lb @ [u]) Dir fs)"
      by (auto split: option.splits node.splits)
    from en e have du1: "node_at fs1 (lb @ [u]) = Some Dir"
      by (auto simp: node_at_put split: option.splits node.splits)
    from f1 d have d1: "node_at fs1 lb = Some Dir"
      by (auto simp: node_at_put node_at_root)
    from f1 w have w1: "walk fs1 (if ab then [] else cwd) ps = Inr lb"
      by (auto intro: walk_put)
    from f1 have fr1: "\<forall>l. l \<notin> ?S \<longrightarrow> node_at fs1 l = node_at fs l"
      by (auto simp: node_at_put node_at_root)
    have nf: "''face_enc.npy'' \<noteq> ''..''" and nv: "''voice_enc.npy'' \<noteq> ''..''"
      and nm: "''meta.json'' \<noteq> ''..''"
      by simp_all
    have tf: "truediv ud ''face_enc.npy'' = PyPath ab (ps @ [u, ''face_enc.npy''])"
      by (simp add: truediv_face ud)
    have tv: "truediv ud ''voice_enc.npy'' = PyPath ab (ps @ [u, ''voice_enc.npy''])"
      by (simp add: truediv_voice ud)
    have tm: "truediv ud ''meta.json'' = PyPath ab (ps @ [u, ''meta.json''])"
      by (simp add: truediv_meta ud)
    from dir(2) show ?thesis
    proof (elim disjE exE conjE)
      assume "fs' = fs1"
      with fr1 show ?thesis by simp
    next
      fix fs2
      assume wf2: "write_file cwd (truediv ud ''face_enc.npy'') (Npy face_enc) fs1 = Inr fs2"
        and eq: "fs' = fs2"
      note s2 = write_grandchild_Inr [OF w1 d1 du1 u nf wf2 [unfolded tf]]
      show ?thesis
        unfolding eq s2(1) by (rule frame_put [OF fr1]) simp
    next
      fix fs2 fs3
      assume wf2: "write_file cwd (truediv ud ''face_enc.npy'') (Npy face_enc) fs1 = Inr fs2"
        and wf3: "write_file cwd (truediv ud ''voice_enc.npy'') (Npy voice_enc) fs2 = Inr fs3"
        and eq: "fs' = fs3"
      note s2 = write_grandchild_Inr [OF w1 d1 du1 u nf wf2 [unfolded tf]]
      have fr2: "\<forall>l. l \<notin> ?S \<longrightarrow> node_at fs2 l = node_at fs l"
        unfolding s2(1) by (rule frame_put [OF fr1]) simp
      note s3 = write_grandchild_Inr [OF s2(3,4,5) u nv wf3 [unfolded tv]]
      show ?thesis
        unfolding eq s3(1) by (rule frame_put [OF fr2]) simp
    next
      fix fs2 fs3 m
      assume wf2: "write_file cwd (truediv ud ''face_enc.npy'') (Npy face_enc) fs1 = Inr fs2"
        and wf3: "write_file cwd (truediv ud ''voice_enc.npy'') (Npy voice_enc) fs2 = Inr fs3"
        and wf4: "write_file cwd (truediv ud ''meta.json'') (JsonObj m) fs3 = Inr fs'"
      note s2 = write_grandchild_Inr [OF w1 d1 du1 u nf wf2 [unfolded tf]]
      have fr2: "\<forall>l. l \<notin> ?S \<longrightarrow> node_at fs2 l = node_at fs l"
        unfolding s2(1) by (rule frame_put [OF fr1]) simp
      note s3 = write_grandchild_Inr [OF s2(3,4,5) u nv wf3 [unfolded tv]]
      have fr3: "\<forall>l. l \<notin> ?S \<longrightarrow> node_at fs3 l = node_at fs l"
        unfolding s3(1) by (rule frame_put [OF fr2]) simp
      note s4 = write_grandchild_Inr(1) [OF s3(3,4,5) u nm wf4 [unfolded tm]]
      show ?thesis
        unfolding s4 by (rule frame_put [OF fr3]) simp
    qed
  qed
  then show ?thesis by blast
qed

lemma read_grandchild:
  assumes "walk fs (if ab then [] else cwd) ps = Inr lb" and "node_at fs lb = Some Dir"
    and "u \<noteq> ''..''" and "c \<noteq> ''..''"
  shows "read_file cwd (PyPath ab (ps @ [u, c])) fs =
           (case node_at fs (lb @ [u]) of
              None \<Rightarrow> Inl ENOENT
            | Some (File _) \<Rightarrow> Inl NotADirectoryError
            | Some Dir \<Rightarrow>
                (case node_at fs (lb @ [u, c]) of
                   None \<Rightarrow> Inl ENOENT
                 | Some Dir \<Rightarrow> Inl IsADirectoryError
                 | Some (File x) \<Rightarrow> Inr x))"
  unfolding read_file_def resolve_grandchild [OF assms]
  by (simp split: option.splits node.splits)

lemma exists_grandchild:
  assumes "walk fs (if ab then [] else cwd) ps = Inr lb" and "node_at fs lb = Some Dir"
    and "u \<noteq> ''..''" and "c \<noteq> ''..''"
  shows "exists cwd fs (PyPath ab (ps @ [u, c])) =
           (node_at fs (lb @ [u]) = Some Dir \<and> node_at fs (lb @ [u, c]) \<noteq> None)"
  unfolding exists_def resolve_grandchild [OF assms]
  by (simp split: option.splits node.splits)

lemma exists_child:
  assumes "walk fs (if ab then [] else cwd) ps = Inr lb" and "node_at fs lb = Some Dir"
    and "u \<noteq> ''..''"
  shows "exists cwd fs (PyPath ab (ps @ [u])) = (node_at fs (lb @ [u]) \<noteq> None)"
  unfolding exists_def resolve_child [OF assms] by simp

text \<open>
  With the store root an existing directory and the username a single entry name, what
  a load returns is determined by the user directory and its three files.
\<close>

lemma load_frame:
  assumes vn: "valid_name u"
    and r: "resolve cwd fs (Path base_dir) = Inr lb" and d: "node_at fs lb = Some Dir"
    and r2: "resolve cwd fs2 (Path base_dir) = Inr lb" and d2: "node_at fs2 lb = Some Dir"
    and eq: "\<forall>l \<in> {lb @ [u], lb @ [u, ''face_enc.npy''], lb @ [u, ''voice_enc.npy''],
                      lb @ [u, ''meta.json'']}. node_at fs2 l = node_at fs l"
  shows "load_user_embeddings cwd base_dir u fs2 = load_user_embeddings cwd base_dir u fs"
proof -
  obtain ab ps where p: "Path base_dir = PyPath ab ps"
    by (cases "Path base_dir") auto
  from r have w: "walk fs (if ab then [] else cwd) ps = Inr lb"
    by (simp add: p resolve_def)
  from r2 have w2: "walk fs2 (if ab then [] else cwd) ps = Inr lb"
    by (simp add: p resolve_def)
  from vn have u: "u \<noteq> ''..''" by (simp add: valid_name_def)
  have nf: "''face_enc.npy'' \<noteq> ''..''" and nv: "''voice_enc.npy'' \<noteq> ''..''"
    and nm: "''meta.json'' \<noteq> ''..''"
    by simp_all
  have t: "truediv (Path base_dir) u = PyPath ab (ps @ [u])"
    by (simp add: truediv_valid_name [OF vn] p)
  have tf: "truediv (PyPath ab (ps @ [u])) ''face_enc.npy'' = PyPath ab (ps @ [u, ''face_enc.npy''])"
    by (simp add: truediv_face)
  have tv: "truediv (PyPath ab (ps @ [u])) ''voice_enc.npy'' = PyPath ab (ps @ [u, ''voice_enc.npy''])"
    by (simp add: truediv_voice)
  have tm: "truediv (PyPath ab (ps @ [u])) ''meta.json'' = PyPath ab (ps @ [u, ''meta.json''])"
    by (simp add: truediv_meta)
  from eq have e: "node_at fs2 (lb @ [u]) = node_at fs (lb @ [u])"
    "node_at fs2 (lb @ [u, ''face_enc.npy'']) = node_at fs (lb @ [u, ''face_enc.npy''])"
    "node_at fs2 (lb @ [u, ''voice_enc.npy'']) = node_at fs (lb @ [u, ''voice_enc.npy''])"
    "node_at fs2 (lb @ [u, ''meta.json'']) = node_at fs (lb @ [u, ''meta.json''])"
    by simp_all
  show ?thesis
    unfolding load_user_embeddings_def Let_def t tf tv tm np_load_def json_load_def
      exists_child [OF w d u] exists_child [OF w2 d2 u]
      exists_grandchild [OF w d u nm] exists_grandchild [OF w2 d2 u nm]
      read_grandchild [OF w d u nf] read_grandchild [OF w2 d2 u nf]
      read_grandchild [OF w d u nv] read_grandchild [OF w2 d2 u nv]
      read_grandchild [OF w d u nm] read_grandchild [OF w2 d2 u nm] e
    by (rule refl)
qed

text \<open>
  C3, as the code has it. No function validates the username: it is joined to the
  store root as a relative path. When the store root is an existing directory and the
  username is a single entry name (not empty, not \<^verbatim>\<open>.\<close> or \<^verbatim>\<open>..\<close>, without a slash),
  \<^verbatim>\<open>save_user_embeddings\<close> changes nothing but the user directory under the root and
  its three files, and what \<^verbatim>\<open>load_user_embeddings\<close> returns depends on nothing else
  in the file system.
\<close>

theorem username_entry_name_confined:
  assumes "valid_name u"
    and "resolve cwd fs (Path base_dir) = Inr lb" and "node_at fs lb = Some Dir"
  shows "(\<forall>face_enc voice_enc meta h res fs' h'.
            save_user_embeddings cwd base_dir u face_enc voice_enc meta (fs, h) = (res, fs', h')
            \<longrightarrow> (\<forall>l. node_at fs' l \<noteq> node_at fs l \<longrightarrow>
                   l \<in> {lb @ [u], lb @ [u, ''face_enc.npy''], lb @ [u, ''voice_enc.npy''],
                         lb @ [u, ''meta.json'']}))
       \<and> (\<forall>fs2. resolve cwd fs2 (Path base_dir) = Inr lb \<and> node_at fs2 lb = Some Dir
              \<and> (\<forall>l \<in> {lb @ [u], lb @ [u, ''face_enc.npy''], lb @ [u, ''voice_enc.npy''],
                         lb @ [u, ''meta.json'']}. node_at fs2 l = node_at fs l)
              \<longrightarrow> load_user_embeddings cwd base_dir u fs2
                  = load_user_embeddings cwd base_dir u fs)"
proof (intro conjI allI impI)
  fix face_enc voice_enc meta h res fs' h' l
  assume "save_user_embeddings cwd base_dir u face_enc voice_enc meta (fs, h) = (res, fs', h')"
    and "node_at fs' l \<noteq> node_at fs l"
  with save_frame [OF assms]
  show "l \<in> {lb @ [u], lb @ [u, ''face_enc.npy''], lb @ [u, ''voice_enc.npy''],
              lb @ [u, ''meta.json'']}"
    by blast
next
  fix fs2
  assume a: "resolve cwd fs2 (Path base_dir) = Inr lb \<and> node_at fs2 lb = Some Dir
              \<and> (\<forall>l \<in> {lb @ [u], lb @ [u, ''face_enc.npy''], lb @ [u, ''voice_enc.npy''],
                         lb @ [u, ''meta.json'']}. node_at fs2 l = node_at fs l)"
  show "load_user_embeddings cwd base_dir u fs2 = load_user_embeddings cwd base_dir u fs"
    by (rule load_frame [OF assms]) (use a in blast)+
qed

theorem username_entry_name_confined_witness:
  "valid_name ''bob''
   \<and> resolve [] [([''users''], Dir)] (Path ''users'') = Inr [''users'']
   \<and> node_at [([''users''], Dir)] [''users''] = Some Dir
   \<and> node_at (fst (snd (save_user_embeddings [] ''users'' ''bob'' [1, 0] [0, 1] None
                           ([([''users''], Dir)], [])))) [''users'', ''alice'']
       = node_at [([''users''], Dir)] [''users'', ''alice'']
   \<and> node_at (fst (snd (save_user_embeddings [] ''users'' ''bob'' [1, 0] [0, 1] None
                           ([([''users''], Dir)], [])))) [''etc'', ''passwd'']
       = node_at [([''users''], Dir)] [''etc'', ''passwd'']"
proof -
  have v: "valid_name ''bob''" by (simp add: valid_name_def)
  have r: "resolve [] [([''users''], Dir)] (Path ''users'') = Inr [''users'']"
    by (simp add: resolve_def Path_def node_at_def)
  have d: "node_at [([''users''], Dir)] [''users''] = Some Dir"
    by (simp add: node_at_def)
  obtain res fs' h' where
    s: "save_user_embeddings [] ''users'' ''bob'' [1, 0] [0, 1] None ([([''users''], Dir)], [])
        = (res, fs', h')"
    by (cases "save_user_embeddings [] ''users'' ''bob'' [1, 0] [0, 1] None
                 ([([''users''], Dir)], [])") auto
  from username_entry_name_confined [OF v r d] s
  have f: "\<forall>l. node_at fs' l \<noteq> node_at [([''users''], Dir)] l \<longrightarrow>
            l \<in> {[''users''] @ [''bob''], [''users''] @ [''bob'', ''face_enc.npy''],
                  [''users''] @ [''bob'', ''voice_enc.npy''], [''users''] @ [''bob'', ''meta.json'']}"
    by blast
  have "[''users'', ''alice''] \<notin> {[''users''] @ [''bob''], [''users''] @ [''bob'', ''face_enc.npy''],
                  [''users''] @ [''bob'', ''voice_enc.npy''], [''users''] @ [''bob'', ''meta.json'']}"
    by simp
  with f have a: "node_at fs' [''users'', ''alice''] = node_at [([''users''], Dir)] [''users'', ''alice'']"
    by blast
  have "[''etc'', ''passwd''] \<notin> {[''users''] @ [''bob''], [''users''] @ [''bob'', ''face_enc.npy''],
                  [''users''] @ [''bob'', ''voice_enc.npy''], [''users''] @ [''bob'', ''meta.json'']}"
    by simp
  with f have b: "node_at fs' [''etc'', ''passwd''] = node_at [([''users''], Dir)] [''etc'', ''passwd'']"
    by blast
  from v r d a b show ?thesis by (simp add: s)
qed

text \<open>
  The claim as worded fails: with the username \<^verbatim>\<open>../evil\<close> the template is written
  to, and read back from, the directory \<^verbatim>\<open>evil\<close> beside the store root
  \<^verbatim>\<open>users\<close>, not under it.
\<close>

theorem username_traversal_counterexample:
  "\<not> valid_name ''../evil''
   \<and> save_user_embeddings [''app''] ''users'' ''../evil'' [1, 0] [0, 1] None
       ([([''app''], Dir), ([''app'', ''users''], Dir)], [])
     = (Inr (),
        [([''app''], Dir), ([''app'', ''users''], Dir), ([''app'', ''evil''], Dir),
         ([''app'', ''evil'', ''face_enc.npy''], File (Npy [1, 0])),
         ([''app'', ''evil'', ''voice_enc.npy''], File (Npy [0, 1])),
         ([''app'', ''evil'', ''meta.json''], File (JsonObj [(''username'', JStr ''../evil'')]))],
        [[(''username'', JStr ''../evil'')]])
   \<and> load_user_embeddings [''app''] ''users'' ''../evil''
        [([''app''], Dir), ([''app'', ''users''], Dir), ([''app'', ''evil''], Dir),
         ([''app'', ''evil'', ''face_enc.npy''], File (Npy [1, 0])),
         ([''app'', ''evil'', ''voice_enc.npy''], File (Npy [0, 1])),
         ([''app'', ''evil'', ''meta.json''], File (JsonObj [(''username'', JStr ''../evil'')]))]
     = Inr ([1, 0], [0, 1], [(''username'', JStr ''../evil'')])"
  by code_simp

subsection \<open>Well-formed file systems\<close>

lemma set_put: "e \<in> set (put l n fs) \<Longrightarrow> e = (l, n) \<or> e \<in> set fs"
  unfolding put_def by (induction fs) (auto split: if_splits)

lemma butlast_neq: "l \<noteq> [] \<Longrightarrow> butlast l \<noteq> l"
  by (metis append_butlast_last_id append_self_conv list.distinct(1))

lemma wf_fs_put:
  assumes wf: "wf_fs fs" and ne: "l \<noteq> []" and vn: "list_all valid_name l"
    and par: "node_at fs (butlast l) = Some Dir"
    and ok: "node_at fs l \<noteq> Some Dir \<or> n = Dir"
  shows "wf_fs (put l n fs)"
proof -
  from wf have dist: "distinct (map fst fs)" by (simp add: wf_fs_def)
  have d: "distinct (map fst (put l n fs))"
    unfolding put_def by (rule distinct_update [OF dist])
  have "fst e \<noteq> [] \<and> list_all valid_name (fst e)
        \<and> node_at (put l n fs) (butlast (fst e)) = Some Dir"
    if e: "e \<in> set (put l n fs)" for e
  proof -
    from set_put [OF e] show ?thesis
    proof
      assume "e = (l, n)"
      with ne vn par butlast_neq [OF ne] show ?thesis
        by (simp add: node_at_put)
    next
      assume m: "e \<in> set fs"
      with wf have f: "fst e \<noteq> []" "list_all valid_name (fst e)"
        "node_at fs (butlast (fst e)) = Some Dir"
        by (auto simp: wf_fs_def)
      from f(3) ok have "butlast (fst e) = l \<longrightarrow> n = Dir" by auto
      with f show ?thesis by (simp add: node_at_put)
    qed
  qed
  with d show ?thesis by (simp add: wf_fs_def)
qed

lemma wf_fs_dir_names:
  assumes "wf_fs fs" and "node_at fs l = Some Dir"
  shows "list_all valid_name l"
proof (cases "l = []")
  case True
  then show ?thesis by simp
next
  case False
  with assms(2) have "(l, Dir) \<in> set fs" by (rule node_at_mem)
  with assms(1) show ?thesis by (auto simp: wf_fs_def)
qed

lemma wf_fs_no_orphan:
  assumes "wf_fs fs" and "node_at fs l \<noteq> Some Dir"
  shows "node_at fs (l @ [c]) = None"
proof (rule ccontr)
  assume "node_at fs (l @ [c]) \<noteq> None"
  then obtain x where "node_at fs (l @ [c]) = Some x" by auto
  then have "(l @ [c], x) \<in> set fs" by (auto intro: node_at_mem)
  with assms(1) have "node_at fs (butlast (l @ [c])) = Some Dir"
    by (auto simp: wf_fs_def)
  with assms(2) show False by simp
qed

lemma write_grandchild_ok:
  assumes w: "walk fs (if ab then [] else cwd) ps = Inr lb" and d: "node_at fs lb = Some Dir"
    and du: "node_at fs (lb @ [u]) = Some Dir"
    and u: "u \<noteq> ''..''" and c: "c \<noteq> ''..''"
    and nd: "node_at fs (lb @ [u, c]) \<noteq> Some Dir"
  shows "write_file cwd (PyPath ab (ps @ [u, c])) x fs = Inr (put (lb @ [u, c]) (File x) fs)"
  unfolding write_file_def resolve_grandchild [OF w d u c] using du nd
  by (auto split: option.splits node.splits)

lemma distinct_singleton_set:
  assumes "distinct ns" and "set ns = {u}"
  shows "ns = [u]"
proof (cases ns)
  case Nil
  with assms(2) show ?thesis by simp
next
  case (Cons a as)
  with assms(2) have a: "a = u" by auto
  have "as = []"
  proof (cases as)
    case Nil
    then show ?thesis .
  next
    case (Cons b bs)
    with \<open>ns = a # as\<close> assms(2) have "b = u" by auto
    with Cons \<open>ns = a # as\<close> a assms(1) show ?thesis by simp
  qed
  with Cons a show ?thesis by simp
qed

subsection \<open>The Admin Login / Enroll page: the first admin\<close>

lemma save_fresh_user:
  assumes p: "Path base_dir = PyPath ab ps"
    and w: "walk fs (if ab then [] else cwd) ps = Inr lb" and d: "node_at fs lb = Some Dir"
    and vn: "valid_name u" and wf: "wf_fs fs" and fresh: "node_at fs (lb @ [u]) = None"
  shows "\<exists>m h'. save_user_embeddings cwd base_dir u face_enc voice_enc meta (fs, h)
           = (Inr (),
              put (lb @ [u, ''meta.json'']) (File (JsonObj m))
                (put (lb @ [u, ''voice_enc.npy'']) (File (Npy voice_enc))
                  (put (lb @ [u, ''face_enc.npy'']) (File (Npy face_enc))
                    (put (lb @ [u]) Dir fs))), h')"
proof -
  let ?st = "if ab then [] else cwd"
  let ?fs1 = "put (lb @ [u]) Dir fs"
  let ?fs2 = "put (lb @ [u, ''face_enc.npy'']) (File (Npy face_enc)) ?fs1"
  let ?fs3 = "put (lb @ [u, ''voice_enc.npy'']) (File (Npy voice_enc)) ?fs2"
  from vn have u: "u \<noteq> ''..''" by (simp add: valid_name_def)
  have nf: "''face_enc.npy'' \<noteq> ''..''" and nv: "''voice_enc.npy'' \<noteq> ''..''"
    and nm: "''meta.json'' \<noteq> ''..''"
    by simp_all
  have e: "ensure_user_dir cwd base_dir u fs = (Inr (PyPath ab (ps @ [u])), ?fs1)"
    using ensure_user_dir_valid [OF p w d vn] fresh by simp
  from fresh have nd: "node_at fs (lb @ [u]) \<noteq> Some Dir" by simp
  have orphan: "node_at fs (lb @ [u, c]) = None" for c
    using wf_fs_no_orphan [OF wf nd, of c] by simp
  have w1: "walk ?fs1 ?st ps = Inr lb" by (rule walk_put [OF w nd])
  have d1: "node_at ?fs1 lb = Some Dir" using d by (simp add: node_at_put)
  have du1: "node_at ?fs1 (lb @ [u]) = Some Dir" by (simp add: node_at_put)
  have n1: "node_at ?fs1 (lb @ [u, ''face_enc.npy'']) \<noteq> Some Dir"
    by (simp add: node_at_put orphan)
  have wr1: "write_file cwd (PyPath ab (ps @ [u, ''face_enc.npy''])) (Npy face_enc) ?fs1 = Inr ?fs2"
    by (rule write_grandchild_ok [OF w1 d1 du1 u nf n1])
  have w2: "walk ?fs2 ?st ps = Inr lb" by (rule walk_put [OF w1 n1])
  have d2: "node_at ?fs2 lb = Some Dir" using d by (simp add: node_at_put)
  have du2: "node_at ?fs2 (lb @ [u]) = Some Dir" by (simp add: node_at_put)
  have n2: "node_at ?fs2 (lb @ [u, ''voice_enc.npy'']) \<noteq> Some Dir"
    by (simp add: node_at_put orphan)
  have wr2: "write_file cwd (PyPath ab (ps @ [u, ''voice_enc.npy''])) (Npy voice_enc) ?fs2 = Inr ?fs3"
    by (rule write_grandchild_ok [OF w2 d2 du2 u nv n2])
  have w3: "walk ?fs3 ?st ps = Inr lb" by (rule walk_put [OF w2 n2])
  have d3: "node_at ?fs3 lb = Some Dir" using d by (simp add: node_at_put)
  have du3: "node_at ?fs3 (lb @ [u]) = Some Dir" by (simp add: node_at_put)
  have n3: "node_at ?fs3 (lb @ [u, ''meta.json'']) \<noteq> Some Dir"
    by (simp add: node_at_put orphan)
  have wr3: "write_file cwd (PyPath ab (ps @ [u, ''meta.json''])) x ?fs3
             = Inr (put (lb @ [u, ''meta.json'']) (File x) ?fs3)" for x
    by (rule write_grandchild_ok [OF w3 d3 du3 u nm n3])
  have tf: "truediv (PyPath ab (ps @ [u])) ''face_enc.npy'' = PyPath ab (ps @ [u, ''face_enc.npy''])"
    by (simp add: truediv_face)
  have tv: "truediv (PyPath ab (ps @ [u])) ''voice_enc.npy'' = PyPath ab (ps @ [u, ''voice_enc.npy''])"
    by (simp add: truediv_voice)
  have tm: "truediv (PyPath ab (ps @ [u])) ''meta.json'' = PyPath ab (ps @ [u, ''meta.json''])"
    by (simp add: truediv_meta)
  obtain r h1 where m: "meta_or_new meta h = (r, h1)"
    by (cases "meta_or_new meta h") auto
  have "save_user_embeddings cwd base_dir u face_enc voice_enc meta (fs, h)
        = (Inr (),
           put (lb @ [u, ''meta.json''])
             (File (JsonObj ((h1[r := dict_update ''username'' (JStr u) (h1 ! r)]) ! r))) ?fs3,
           h1[r := dict_update ''username'' (JStr u) (h1 ! r)])"
    unfolding save_user_embeddings_def Let_def np_save_def prod.case e sum.case tf tv tm wr1 wr2
      m wr3
    by (rule refl)
  then show ?thesis by blast
qed

text \<open>An empty listing: the store root is missing or holds no directory.\<close>

lemma empty_listing:
  assumes wf: "wf_fs fs" and cd: "node_at fs cwd = Some Dir"
    and l: "list_users cwd BASE_USERS_DIR fs = Inr []"
  shows "node_at fs (cwd @ [''users'']) = None \<or> node_at fs (cwd @ [''users'']) = Some Dir"
    and "node_at fs (cwd @ [''users'', n]) \<noteq> Some Dir"
proof -
  let ?lb = "cwd @ [''users'']"
  have r: "resolve cwd fs (Path BASE_USERS_DIR) = Inr ?lb"
    using cd by (simp add: Path_users resolve_def)
  have nofile: "node_at fs ?lb \<noteq> Some (File x)" for x
  proof
    assume f: "node_at fs ?lb = Some (File x)"
    with r have "exists cwd fs (Path BASE_USERS_DIR)" by (simp add: exists_def)
    moreover from r f have "iterdir cwd fs (Path BASE_USERS_DIR) = Inl NotADirectoryError"
      by (simp add: iterdir_def)
    ultimately have "list_users cwd BASE_USERS_DIR fs = Inl NotADirectoryError"
      by (simp add: list_users_def)
    with l show False by simp
  qed
  show c: "node_at fs ?lb = None \<or> node_at fs ?lb = Some Dir"
  proof (cases "node_at fs ?lb")
    case None
    then show ?thesis by simp
  next
    case (Some nd)
    with nofile show ?thesis by (cases nd) auto
  qed
  show "node_at fs (cwd @ [''users'', n]) \<noteq> Some Dir"
  proof (cases "node_at fs ?lb = Some Dir")
    case True
    from list_users_dir [OF wf r True] l children_set [OF wf, of ?lb]
    have "{n. node_at fs (?lb @ [n]) = Some Dir} = {}" by simp
    then show ?thesis by auto
  next
    case False
    from wf_fs_no_orphan [OF wf False, of n] show ?thesis by simp
  qed
qed

text \<open>
  The first save into a store whose listing is empty, for a username that is an entry
  name not yet used in the store root.
\<close>

lemma first_save:
  assumes wf: "wf_fs fs" and cd: "node_at fs cwd = Some Dir"
    and l: "list_users cwd BASE_USERS_DIR fs = Inr []"
    and vn: "valid_name u" and fresh: "node_at fs (cwd @ [''users'', u]) = None"
  shows "\<exists>fs' h'. save_user_embeddings cwd BASE_USERS_DIR u face_enc voice_enc meta (fs, h)
                    = (Inr (), fs', h')
               \<and> list_users cwd BASE_USERS_DIR fs' = Inr [u]"
proof -
  let ?lb = "cwd @ [''users'']"
  define fs0 where "fs0 = (if node_at fs ?lb = None then put ?lb Dir fs else fs)"
  note el = empty_listing [OF wf cd l]
  have w: "walk fs (if False then [] else cwd) [] = Inr cwd" by simp
  have uv: "''users'' \<noteq> ''..''" by simp
  have m1: "mkdir_parents cwd (Path BASE_USERS_DIR) fs = (Inr (), fs0)"
    using mkdir_child [OF w cd uv] el(1) by (auto simp: Path_users fs0_def)
  have d0: "node_at fs0 ?lb = Some Dir"
    using el(1) by (auto simp: node_at_put fs0_def)
  have cd0: "node_at fs0 cwd = Some Dir"
    using cd by (simp add: node_at_put fs0_def)
  have w0: "walk fs0 (if False then [] else cwd) [''users''] = Inr ?lb"
    using cd0 by simp
  have r0: "resolve cwd fs0 (Path BASE_USERS_DIR) = Inr ?lb"
    using w0 by (simp add: Path_users resolve_def)
  have m2: "mkdir_parents cwd (Path BASE_USERS_DIR) fs0 = (Inr (), fs0)"
    by (rule mkdir_parents_existing [OF r0 d0])
  have "ensure_user_dir cwd BASE_USERS_DIR u fs = ensure_user_dir cwd BASE_USERS_DIR u fs0"
    unfolding ensure_user_dir_def Let_def m1 m2 by (rule refl)
  then have same: "save_user_embeddings cwd BASE_USERS_DIR u face_enc voice_enc meta (fs, h)
                   = save_user_embeddings cwd BASE_USERS_DIR u face_enc voice_enc meta (fs0, h)"
    by (simp add: save_user_embeddings_def)
  have names_cwd: "list_all valid_name cwd"
    by (rule wf_fs_dir_names [OF wf cd])
  have vu: "valid_name ''users''" by (simp add: valid_name_def)
  have wf0: "wf_fs fs0"
  proof (cases "node_at fs ?lb = None")
    case True
    have "wf_fs (put ?lb Dir fs)"
      by (rule wf_fs_put [OF wf]) (use names_cwd vu cd in simp_all)
    with True show ?thesis by (simp add: fs0_def)
  next
    case False
    then have "fs0 = fs" by (auto simp: fs0_def)
    with wf show ?thesis by simp
  qed
  have fresh0: "node_at fs0 (?lb @ [u]) = None"
    using fresh by (simp add: node_at_put fs0_def)
  have other0: "node_at fs0 (?lb @ [n]) = node_at fs (?lb @ [n])" for n
    by (simp add: node_at_put fs0_def)
  from save_fresh_user [OF Path_users w0 d0 vn wf0 fresh0, of face_enc voice_enc meta h]
  obtain m h' where
    s: "save_user_embeddings cwd BASE_USERS_DIR u face_enc voice_enc meta (fs0, h)
        = (Inr (),
           put (?lb @ [u, ''meta.json'']) (File (JsonObj m))
             (put (?lb @ [u, ''voice_enc.npy'']) (File (Npy voice_enc))
               (put (?lb @ [u, ''face_enc.npy'']) (File (Npy face_enc))
                 (put (?lb @ [u]) Dir fs0))), h')"
    by blast
  define fs1 where "fs1 = put (?lb @ [u]) Dir fs0"
  define fs2 where "fs2 = put (?lb @ [u, ''face_enc.npy'']) (File (Npy face_enc)) fs1"
  define fs3 where "fs3 = put (?lb @ [u, ''voice_enc.npy'']) (File (Npy voice_enc)) fs2"
  define fs4 where "fs4 = put (?lb @ [u, ''meta.json'']) (File (JsonObj m)) fs3"
  have names_u: "list_all valid_name (?lb @ [u])"
    using names_cwd vu vn by simp
  have vf: "valid_name ''face_enc.npy''" "valid_name ''voice_enc.npy''" "valid_name ''meta.json''"
    by (simp_all add: valid_name_def)
  have orphan: "node_at fs0 (?lb @ [u, c]) = None" for c
    using wf_fs_no_orphan [OF wf0, of "?lb @ [u]" c] fresh0 by simp
  have wf1: "wf_fs fs1"
    unfolding fs1_def by (rule wf_fs_put [OF wf0]) (use names_u d0 in \<open>simp_all add: butlast_append\<close>)
  have du1: "node_at fs1 (?lb @ [u]) = Some Dir"
    by (simp add: fs1_def node_at_put)
  have wf2: "wf_fs fs2"
    unfolding fs2_def
    by (rule wf_fs_put [OF wf1]) (use names_u vf du1 orphan in \<open>simp_all add: fs1_def node_at_put butlast_append\<close>)
  have du2: "node_at fs2 (?lb @ [u]) = Some Dir"
    using du1 by (simp add: fs2_def node_at_put)
  have wf3: "wf_fs fs3"
    unfolding fs3_def
    by (rule wf_fs_put [OF wf2])
      (use names_u vf du2 orphan in \<open>simp_all add: fs2_def fs1_def node_at_put butlast_append\<close>)
  have du3: "node_at fs3 (?lb @ [u]) = Some Dir"
    using du2 by (simp add: fs3_def node_at_put)
  have wf4: "wf_fs fs4"
    unfolding fs4_def
    by (rule wf_fs_put [OF wf3])
      (use names_u vf du3 orphan in \<open>simp_all add: fs3_def fs2_def fs1_def node_at_put butlast_append\<close>)
  have cd4: "node_at fs4 cwd = Some Dir"
    using cd0 by (simp add: fs4_def fs3_def fs2_def fs1_def node_at_put)
  have d4: "node_at fs4 ?lb = Some Dir"
    using d0 by (simp add: fs4_def fs3_def fs2_def fs1_def node_at_put)
  have r4: "resolve cwd fs4 (Path BASE_USERS_DIR) = Inr ?lb"
    using cd4 by (simp add: Path_users resolve_def)
  have ch: "node_at fs4 (?lb @ [n]) = (if n = u then Some Dir else node_at fs (?lb @ [n]))" for n
    using other0 [of n] by (simp add: fs4_def fs3_def fs2_def fs1_def node_at_put)
  have "{n. node_at fs4 (?lb @ [n]) = Some Dir} = {u}"
  proof (intro set_eqI iffI)
    fix n assume "n \<in> {n. node_at fs4 (?lb @ [n]) = Some Dir}"
    then have "node_at fs4 (?lb @ [n]) = Some Dir" by simp
    with ch [of n] el(2) [of n] show "n \<in> {u}" by (cases "n = u") simp_all
  next
    fix n assume "n \<in> {u}"
    with ch [of u] show "n \<in> {n. node_at fs4 (?lb @ [n]) = Some Dir}" by simp
  qed
  with list_users_dir [OF wf4 r4 d4] children_set [OF wf4, of ?lb]
    children_distinct [OF wf4, of ?lb]
  obtain ns where ns: "list_users cwd BASE_USERS_DIR fs4 = Inr ns" "distinct ns" "set ns = {u}"
    by auto
  from distinct_singleton_set [OF ns(2,3)] ns(1)
  have "list_users cwd BASE_USERS_DIR fs4 = Inr [u]" by simp
  moreover from same s
  have "save_user_embeddings cwd BASE_USERS_DIR u face_enc voice_enc meta (fs, h)
        = (Inr (), fs4, h')"
    by (simp add: fs4_def fs3_def fs2_def fs1_def)
  ultimately show ?thesis by blast
qed

text \<open>
  C7, as the code has it. In a well-formed file system, with the working directory
  in place: while \<^verbatim>\<open>list_users\<close> is empty, \<^verbatim>\<open>Create Admin\<close> with a username that is a
  single entry name not yet used in the store root, with both uploads and with both
  extractions succeeding, reports success; afterwards the template can be loaded with
  the metadata \<^verbatim>\<open>role = admin\<close> and the username, and \<^verbatim>\<open>list_users\<close> is exactly that
  username, so the store is populated. Once \<^verbatim>\<open>list_users\<close> is not empty the form is
  not shown: the step only says that users already exist and leaves the store as it
  is.
\<close>

theorem bootstrap_state_machine:
  assumes wf: "wf_fs fs" and cd: "node_at fs cwd = Some Dir"
  shows "(list_users cwd BASE_USERS_DIR fs = Inr [] \<and> create_admin_button w
          \<and> valid_name (init_user w)
          \<and> init_face w = Some face_bytes \<and> init_voice w = Some voice_bytes
          \<and> get_face_encoding_from_image face_encodings face_bytes = Inr fenc
          \<and> get_voice_embedding_from_wav encode_file voice_bytes = Inr venc
          \<and> node_at fs (cwd @ [''users'', init_user w]) = None
          \<longrightarrow> (\<exists>fs'. create_admin face_encodings encode_file cwd w fs
                       = (Inr [St_warning ''No users found. Initialize first admin here.'',
                               St_success (''Admin '' @ init_user w @
                                 '' initialized. You can now login using Admin Verify.'')], fs')
                   \<and> load_user_embeddings cwd BASE_USERS_DIR (init_user w) fs'
                       = Inr (fenc, venc,
                              [(''role'', JStr ''admin''), (''username'', JStr (init_user w))])
                   \<and> list_users cwd BASE_USERS_DIR fs' = Inr [init_user w]))
       \<and> (\<forall>users. list_users cwd BASE_USERS_DIR fs = Inr users \<and> users \<noteq> []
              \<longrightarrow> create_admin face_encodings encode_file cwd w fs
                  = (Inr [St_info ''Users already exist; initializing admin not required.''], fs))"
proof (intro conjI impI allI)
  assume a: "list_users cwd BASE_USERS_DIR fs = Inr [] \<and> create_admin_button w
          \<and> valid_name (init_user w)
          \<and> init_face w = Some face_bytes \<and> init_voice w = Some voice_bytes
          \<and> get_face_encoding_from_image face_encodings face_bytes = Inr fenc
          \<and> get_voice_embedding_from_wav encode_file voice_bytes = Inr venc
          \<and> node_at fs (cwd @ [''users'', init_user w]) = None"
  then have l: "list_users cwd BASE_USERS_DIR fs = Inr []" and b: "create_admin_button w"
    and vn: "valid_name (init_user w)"
    and i: "init_face w = Some face_bytes" "init_voice w = Some voice_bytes"
    and x: "get_face_encoding_from_image face_encodings face_bytes = Inr fenc"
       "get_voice_embedding_from_wav encode_file voice_bytes = Inr venc"
    and fresh: "node_at fs (cwd @ [''users'', init_user w]) = None"
    by simp_all
  from vn have ne: "init_user w \<noteq> []" by (simp add: valid_name_def)
  from first_save [OF wf cd l vn fresh, of fenc venc "Some 0" "[[(''role'', JStr ''admin'')]]"]
  obtain fs' h' where
    s: "save_user_embeddings cwd BASE_USERS_DIR (init_user w) fenc venc (Some 0)
          (fs, [[(''role'', JStr ''admin'')]]) = (Inr (), fs', h')"
    and lu: "list_users cwd BASE_USERS_DIR fs' = Inr [init_user w]"
    by blast
  have vr: "valid_ref [[(''role'', JStr ''admin'')]] (Some 0)"
    by (simp add: valid_ref_def)
  have "dict_update ''username'' (JStr (init_user w))
          (caller_dict [[(''role'', JStr ''admin'')]] (Some 0))
        = [(''role'', JStr ''admin''), (''username'', JStr (init_user w))]"
    by (simp add: caller_dict_def dict_update_def)
  with save_then_load [OF s vr]
  have ld: "load_user_embeddings cwd BASE_USERS_DIR (init_user w) fs'
            = Inr (fenc, venc, [(''role'', JStr ''admin''), (''username'', JStr (init_user w))])"
    by simp
  have "create_admin face_encodings encode_file cwd w fs
        = (Inr [St_warning ''No users found. Initialize first admin here.'',
                St_success (''Admin '' @ init_user w @
                  '' initialized. You can now login using Admin Verify.'')], fs')"
    by (simp add: create_admin_def l b i x ne s)
  with ld lu
  show "\<exists>fs'. create_admin face_encodings encode_file cwd w fs
                       = (Inr [St_warning ''No users found. Initialize first admin here.'',
                               St_success (''Admin '' @ init_user w @
                                 '' initialized. You can now login using Admin Verify.'')], fs')
                   \<and> load_user_embeddings cwd BASE_USERS_DIR (init_user w) fs'
                       = Inr (fenc, venc,
                              [(''role'', JStr ''admin''), (''username'', JStr (init_user w))])
                   \<and> list_users cwd BASE_USERS_DIR fs' = Inr [init_user w]"
    by blast
next
  fix users
  assume "list_users cwd BASE_USERS_DIR fs = Inr users \<and> users \<noteq> []"
  then show "create_admin face_encodings encode_file cwd w fs
             = (Inr [St_info ''Users already exist; initializing admin not required.''], fs)"
    by (simp add: create_admin_def)
qed

theorem bootstrap_state_machine_witness:
  "wf_fs [] \<and> node_at [] [] = Some Dir
   \<and> (\<exists>fs'. create_admin (\<lambda>_. Inr [[1, 0]]) (\<lambda>_. Inr [0, 1]) []
         \<lparr>admin_user = [], admin_img = None, admin_audio = None, admin_verify_button = False,
          init_user = ''alice'', init_face = Some ''img'', init_voice = Some ''wav'',
          create_admin_button = True,
          admin_flag = False, new_username = [], new_face = None,
          new_voice = None, enroll_button = False\<rparr> []
        = (Inr [St_warning ''No users found. Initialize first admin here.'',
                St_success (''Admin '' @ ''alice'' @
                  '' initialized. You can now login using Admin Verify.'')], fs')
      \<and> load_user_embeddings [] BASE_USERS_DIR ''alice'' fs'
          = Inr ([1, 0], [0, 1], [(''role'', JStr ''admin''), (''username'', JStr ''alice'')])
      \<and> list_users [] BASE_USERS_DIR fs' = Inr [''alice''])"
proof -
  let ?w = "\<lparr>admin_user = [], admin_img = None, admin_audio = None, admin_verify_button = False,
          init_user = ''alice'', init_face = Some ''img'', init_voice = Some ''wav'',
          create_admin_button = True,
          admin_flag = False, new_username = [], new_face = None,
          new_voice = None, enroll_button = False\<rparr>"
  have wf: "wf_fs []" by (simp add: wf_fs_def)
  have cd: "node_at [] [] = Some Dir" by (simp add: node_at_def)
  have l: "list_users [] BASE_USERS_DIR [] = Inr []" by code_simp
  have vn: "valid_name (init_user ?w)" by (simp add: valid_name_def)
  have f: "get_face_encoding_from_image (\<lambda>_. Inr [[1, 0]]) ''img'' = Inr [1, 0]"
    by (simp add: get_face_encoding_from_image_def)
  have v: "get_voice_embedding_from_wav (\<lambda>_. Inr [0, 1]) ''wav'' = Inr [0, 1]"
    by (simp add: get_voice_embedding_from_wav_def)
  have fresh: "node_at [] ([] @ [''users'', init_user ?w]) = None"
    by (simp add: node_at_def)
  from bootstrap_state_machine [OF wf cd, where w = ?w and face_bytes = "''img''"
      and voice_bytes = "''wav''" and face_encodings = "\<lambda>_. Inr [[1, 0]]"
      and encode_file = "\<lambda>_. Inr [0, 1]" and fenc = "[1, 0]" and venc = "[0, 1]"]
    l vn f v fresh
  have "\<exists>fs'. create_admin (\<lambda>_. Inr [[1, 0]]) (\<lambda>_. Inr [0, 1]) [] ?w []
        = (Inr [St_warning ''No users found. Initialize first admin here.'',
                St_success (''Admin '' @ init_user ?w @
                  '' initialized. You can now login using Admin Verify.'')], fs')
      \<and> load_user_embeddings [] BASE_USERS_DIR (init_user ?w) fs'
          = Inr ([1, 0], [0, 1], [(''role'', JStr ''admin''), (''username'', JStr (init_user ?w))])
      \<and> list_users [] BASE_USERS_DIR fs' = Inr [init_user ?w]"
    by simp
  then have "\<exists>fs'. create_admin (\<lambda>_. Inr [[1, 0]]) (\<lambda>_. Inr [0, 1]) [] ?w []
        = (Inr [St_warning ''No users found. Initialize first admin here.'',
                St_success (''Admin '' @ ''alice'' @
                  '' initialized. You can now login using Admin Verify.'')], fs')
      \<and> load_user_embeddings [] BASE_USERS_DIR ''alice'' fs'
          = Inr ([1, 0], [0, 1], [(''role'', JStr ''admin''), (''username'', JStr ''alice'')])
      \<and> list_users [] BASE_USERS_DIR fs' = Inr [''alice'']"
    by simp
  with wf cd show ?thesis by blast
qed

text \<open>
  The claim as worded fails: with the username \<^verbatim>\<open>../x\<close> the first admin is written
  beside the store root, \<^verbatim>\<open>list_users\<close> stays empty, and a second \<^verbatim>\<open>Create Admin\<close>
  succeeds as well.
\<close>

theorem bootstrap_twice_counterexample:
  "list_users [''app''] BASE_USERS_DIR [([''app''], Dir)] = Inr []
   \<and> create_admin (\<lambda>_. Inr [[1, 0]]) (\<lambda>_. Inr [0, 1]) [''app'']
       \<lparr>admin_user = [], admin_img = None, admin_audio = None, admin_verify_button = False,
        init_user = ''../x'', init_face = Some ''img'', init_voice = Some ''wav'',
        create_admin_button = True,
        admin_flag = False, new_username = [], new_face = None,
        new_voice = None, enroll_button = False\<rparr>
       [([''app''], Dir)]
     = (Inr [St_warning ''No users found. Initialize first admin here.'',
             St_success (''Admin '' @ ''../x'' @
               '' initialized. You can now login using Admin Verify.'')],
        [([''app''], Dir), ([''app'', ''users''], Dir), ([''app'', ''x''], Dir),
         ([''app'', ''x'', ''face_enc.npy''], File (Npy [1, 0])),
         ([''app'', ''x'', ''voice_enc.npy''], File (Npy [0, 1])),
         ([''app'', ''x'', ''meta.json''],
          File (JsonObj [(''role'', JStr ''admin''), (''username'', JStr ''../x'')]))])
   \<and> list_users [''app''] BASE_USERS_DIR
        [([''app''], Dir), ([''app'', ''users''], Dir), ([''app'', ''x''], Dir),
         ([''app'', ''x'', ''face_enc.npy''], File (Npy [1, 0])),
         ([''app'', ''x'', ''voice_enc.npy''], File (Npy [0, 1])),
         ([''app'', ''x'', ''meta.json''],
          File (JsonObj [(''role'', JStr ''admin''), (''username'', JStr ''../x'')]))]
     = Inr []
   \<and> fst (create_admin (\<lambda>_. Inr [[1, 0]]) (\<lambda>_. Inr [0, 1]) [''app'']
       \<lparr>admin_user = [], admin_img = None, admin_audio = None, admin_verify_button = False,
        init_user = ''../y'', init_face = Some ''img'', init_voice = Some ''wav'',
        create_admin_button = True,
        admin_flag = False, new_username = [], new_face = None,
        new_voice = None, enroll_button = False\<rparr>
        [([''app''], Dir), ([''app'', ''users''], Dir), ([''app'', ''x''], Dir),
         ([''app'', ''x'', ''face_enc.npy''], File (Npy [1, 0])),
         ([''app'', ''x'', ''voice_enc.npy''], File (Npy [0, 1])),
         ([''app'', ''x'', ''meta.json''],
          File (JsonObj [(''role'', JStr ''admin''), (''username'', JStr ''../x'')]))])
     = Inr [St_warning ''No users found. Initialize first admin here.'',
            St_success (''Admin '' @ ''../y'' @
              '' initialized. You can now login using Admin Verify.'')]"
  by code_simp

subsection \<open>Existing templates\<close>

text \<open>What a successful load of a username that is an entry name says about the store.\<close>

lemma load_Inr_shape:
  assumes p: "Path base_dir = PyPath ab ps" and vn: "valid_name u"
    and ld: "load_user_embeddings cwd base_dir u fs = Inr (f0, v0, m0)"
  shows "\<exists>lb. walk fs (if ab then [] else cwd) ps = Inr lb \<and> node_at fs lb = Some Dir
             \<and> node_at fs (lb @ [u]) = Some Dir
             \<and> node_at fs (lb @ [u, ''face_enc.npy'']) \<noteq> Some Dir
             \<and> node_at fs (lb @ [u, ''voice_enc.npy'']) \<noteq> Some Dir
             \<and> node_at fs (lb @ [u, ''meta.json'']) \<noteq> Some Dir"
proof -
  let ?st = "if ab then [] else cwd"
  from vn have u: "u \<noteq> ''..''" by (simp add: valid_name_def)
  have nf: "''face_enc.npy'' \<noteq> ''..''" and nv: "''voice_enc.npy'' \<noteq> ''..''"
    and nm: "''meta.json'' \<noteq> ''..''"
    by simp_all
  have t: "truediv (Path base_dir) u = PyPath ab (ps @ [u])"
    by (simp add: truediv_valid_name [OF vn] p)
  have tf: "truediv (PyPath ab (ps @ [u])) ''face_enc.npy'' = PyPath ab (ps @ [u, ''face_enc.npy''])"
    by (simp add: truediv_face)
  have tv: "truediv (PyPath ab (ps @ [u])) ''voice_enc.npy'' = PyPath ab (ps @ [u, ''voice_enc.npy''])"
    by (simp add: truediv_voice)
  have tm: "truediv (PyPath ab (ps @ [u])) ''meta.json'' = PyPath ab (ps @ [u, ''meta.json''])"
    by (simp add: truediv_meta)
  from ld have ff: "np_load cwd (PyPath ab (ps @ [u, ''face_enc.npy''])) fs = Inr f0"
    and vv: "np_load cwd (PyPath ab (ps @ [u, ''voice_enc.npy''])) fs = Inr v0"
    and mm: "exists cwd fs (PyPath ab (ps @ [u, ''meta.json''])) \<longrightarrow>
             (\<exists>m. json_load cwd (PyPath ab (ps @ [u, ''meta.json''])) fs = Inr m)"
    unfolding load_user_embeddings_def Let_def t tf tv tm
    by (auto split: if_splits sum.splits)
  from ff obtain lf where
    lf: "walk fs ?st ((ps @ [u]) @ [''face_enc.npy'']) = Inr lf"
        "node_at fs lf = Some (File (Npy f0))"
    unfolding np_load_def read_file_def resolve_def
    by (auto split: sum.splits option.splits node.splits content.splits)
  from walk_snoc_Inr [OF lf(1)] obtain l1 where
    l1: "walk fs ?st (ps @ [u]) = Inr l1" "node_at fs l1 = Some Dir" "lf = l1 @ [''face_enc.npy'']"
    by auto
  from walk_snoc_Inr [OF l1(1)] u obtain lb where
    lb: "walk fs ?st ps = Inr lb" "node_at fs lb = Some Dir" "l1 = lb @ [u]"
    by auto
  have du: "node_at fs (lb @ [u]) = Some Dir" using l1(2) lb(3) by simp
  have n1: "node_at fs (lb @ [u, ''face_enc.npy'']) \<noteq> Some Dir"
    using lf(2) l1(3) lb(3) by simp
  from vv have "\<exists>c. read_file cwd (PyPath ab (ps @ [u, ''voice_enc.npy''])) fs = Inr c"
    unfolding np_load_def by (auto split: sum.splits)
  then have n2: "node_at fs (lb @ [u, ''voice_enc.npy'']) \<noteq> Some Dir"
    unfolding read_grandchild [OF lb(1,2) u nv] using du
    by (auto split: option.splits node.splits)
  have n3: "node_at fs (lb @ [u, ''meta.json'']) \<noteq> Some Dir"
  proof
    assume md: "node_at fs (lb @ [u, ''meta.json'']) = Some Dir"
    with du have "exists cwd fs (PyPath ab (ps @ [u, ''meta.json'']))"
      by (simp add: exists_grandchild [OF lb(1,2) u nm])
    with mm obtain m where "json_load cwd (PyPath ab (ps @ [u, ''meta.json''])) fs = Inr m"
      by blast
    then have "\<exists>c. read_file cwd (PyPath ab (ps @ [u, ''meta.json''])) fs = Inr c"
      unfolding json_load_def by (auto split: sum.splits)
    with du md show False
      unfolding read_grandchild [OF lb(1,2) u nm] by simp
  qed
  from lb(1,2) du n1 n2 n3 show ?thesis by blast
qed

text \<open>Saving over a user directory that is already there.\<close>

lemma save_existing_user:
  assumes p: "Path base_dir = PyPath ab ps"
    and w: "walk fs (if ab then [] else cwd) ps = Inr lb" and d: "node_at fs lb = Some Dir"
    and vn: "valid_name u" and du: "node_at fs (lb @ [u]) = Some Dir"
    and n1: "node_at fs (lb @ [u, ''face_enc.npy'']) \<noteq> Some Dir"
    and n2: "node_at fs (lb @ [u, ''voice_enc.npy'']) \<noteq> Some Dir"
    and n3: "node_at fs (lb @ [u, ''meta.json'']) \<noteq> Some Dir"
  shows "\<exists>m h'. save_user_embeddings cwd base_dir u face_enc voice_enc meta (fs, h)
           = (Inr (),
              put (lb @ [u, ''meta.json'']) (File (JsonObj m))
                (put (lb @ [u, ''voice_enc.npy'']) (File (Npy voice_enc))
                  (put (lb @ [u, ''face_enc.npy'']) (File (Npy face_enc)) fs)), h')"
proof -
  let ?st = "if ab then [] else cwd"
  let ?fs2 = "put (lb @ [u, ''face_enc.npy'']) (File (Npy face_enc)) fs"
  let ?fs3 = "put (lb @ [u, ''voice_enc.npy'']) (File (Npy voice_enc)) ?fs2"
  from vn have u: "u \<noteq> ''..''" by (simp add: valid_name_def)
  have nf: "''face_enc.npy'' \<noteq> ''..''" and nv: "''voice_enc.npy'' \<noteq> ''..''"
    and nm: "''meta.json'' \<noteq> ''..''"
    by simp_all
  have e: "ensure_user_dir cwd base_dir u fs = (Inr (PyPath ab (ps @ [u])), fs)"
    using ensure_user_dir_valid [OF p w d vn] du by simp
  have wr1: "write_file cwd (PyPath ab (ps @ [u, ''face_enc.npy''])) (Npy face_enc) fs = Inr ?fs2"
    by (rule write_grandchild_ok [OF w d du u nf n1])
  have w2: "walk ?fs2 ?st ps = Inr lb" by (rule walk_put [OF w n1])
  have d2: "node_at ?fs2 lb = Some Dir" using d by (simp add: node_at_put)
  have du2: "node_at ?fs2 (lb @ [u]) = Some Dir" using du by (simp add: node_at_put)
  have n2': "node_at ?fs2 (lb @ [u, ''voice_enc.npy'']) \<noteq> Some Dir"
    using n2 by (simp add: node_at_put)
  have wr2: "write_file cwd (PyPath ab (ps @ [u, ''voice_enc.npy''])) (Npy voice_enc) ?fs2 = Inr ?fs3"
    by (rule write_grandchild_ok [OF w2 d2 du2 u nv n2'])
  have w3: "walk ?fs3 ?st ps = Inr lb" by (rule walk_put [OF w2 n2'])
  have d3: "node_at ?fs3 lb = Some Dir" using d by (simp add: node_at_put)
  have du3: "node_at ?fs3 (lb @ [u]) = Some Dir" using du by (simp add: node_at_put)
  have n3': "node_at ?fs3 (lb @ [u, ''meta.json'']) \<noteq> Some Dir"
    using n3 by (simp add: node_at_put)
  have wr3: "write_file cwd (PyPath ab (ps @ [u, ''meta.json''])) x ?fs3
             = Inr (put (lb @ [u, ''meta.json'']) (File x) ?fs3)" for x
    by (rule write_grandchild_ok [OF w3 d3 du3 u nm n3'])
  have tf: "truediv (PyPath ab (ps @ [u])) ''face_enc.npy'' = PyPath ab (ps @ [u, ''face_enc.npy''])"
    by (simp add: truediv_face)
  have tv: "truediv (PyPath ab (ps @ [u])) ''voice_enc.npy'' = PyPath ab (ps @ [u, ''voice_enc.npy''])"
    by (simp add: truediv_voice)
  have tm: "truediv (PyPath ab (ps @ [u])) ''meta.json'' = PyPath ab (ps @ [u, ''meta.json''])"
    by (simp add: truediv_meta)
  obtain r h1 where m: "meta_or_new meta h = (r, h1)"
    by (cases "meta_or_new meta h") auto
  have "save_user_embeddings cwd base_dir u face_enc voice_enc meta (fs, h)
        = (Inr (),
           put (lb @ [u, ''meta.json''])
             (File (JsonObj ((h1[r := dict_update ''username'' (JStr u) (h1 ! r)]) ! r))) ?fs3,
           h1[r := dict_update ''username'' (JStr u) (h1 ! r)])"
    unfolding save_user_embeddings_def Let_def np_save_def prod.case e sum.case tf tv tm wr1 wr2
      m wr3
    by (rule refl)
  then show ?thesis by blast
qed

text \<open>A listing that is not empty: the store root is a directory.\<close>

lemma nonempty_listing:
  assumes cd: "node_at fs cwd = Some Dir"
    and l: "list_users cwd BASE_USERS_DIR fs = Inr users" and ne: "users \<noteq> []"
  shows "node_at fs (cwd @ [''users'']) = Some Dir"
proof -
  let ?lb = "cwd @ [''users'']"
  have r: "resolve cwd fs (Path BASE_USERS_DIR) = Inr ?lb"
    using cd by (simp add: Path_users resolve_def)
  show ?thesis
  proof (cases "node_at fs ?lb")
    case None
    with r have "\<not> exists cwd fs (Path BASE_USERS_DIR)" by (simp add: exists_def)
    then have "list_users cwd BASE_USERS_DIR fs = Inr []" by (simp add: list_users_def)
    with l ne show ?thesis by simp
  next
    case (Some nd)
    show ?thesis
    proof (cases nd)
      case Dir
      with Some show ?thesis by simp
    next
      case (File x)
      with Some r have "exists cwd fs (Path BASE_USERS_DIR)" by (simp add: exists_def)
      moreover from r Some File
      have "iterdir cwd fs (Path BASE_USERS_DIR) = Inl NotADirectoryError"
        by (simp add: iterdir_def)
      ultimately have "list_users cwd BASE_USERS_DIR fs = Inl NotADirectoryError"
        by (simp add: list_users_def)
      with l show ?thesis by simp
    qed
  qed
qed

subsection \<open>The listing and the enrolled usernames\<close>

text \<open>
  C9, as the code has it. In a well-formed file system \<^verbatim>\<open>list_users\<close> returns the
  empty list when the store root does not exist, and when the store root is a
  directory it returns, without repetition, exactly the names of the directories
  directly under it. Every username that is a single entry name and whose template can
  be loaded is among them; nothing more links the listing to the enrolled usernames.
\<close>

theorem list_users_spec:
  assumes "wf_fs fs"
  shows "(\<not> exists cwd fs (Path base_dir) \<longrightarrow> list_users cwd base_dir fs = Inr [])
       \<and> (\<forall>l. resolve cwd fs (Path base_dir) = Inr l \<and> node_at fs l = Some Dir \<longrightarrow>
            (\<exists>ns. list_users cwd base_dir fs = Inr ns \<and> distinct ns
                 \<and> set ns = {n. node_at fs (l @ [n]) = Some Dir}))
       \<and> (\<forall>u f v m. valid_name u \<and> load_user_embeddings cwd base_dir u fs = Inr (f, v, m) \<longrightarrow>
            (\<exists>ns. list_users cwd base_dir fs = Inr ns \<and> u \<in> set ns))"
proof (intro conjI impI allI)
  assume "\<not> exists cwd fs (Path base_dir)"
  then show "list_users cwd base_dir fs = Inr []" by (simp add: list_users_def)
next
  fix l
  assume "resolve cwd fs (Path base_dir) = Inr l \<and> node_at fs l = Some Dir"
  then have "list_users cwd base_dir fs
         = Inr (map (\<lambda>e. last (fst e))
                 (filter (\<lambda>e. snd e = Dir)
                    (filter (\<lambda>e. fst e \<noteq> [] \<and> butlast (fst e) = l) fs)))"
    using list_users_dir [OF assms] by blast
  with children_set [OF assms, of l] children_distinct [OF assms, of l]
  show "\<exists>ns. list_users cwd base_dir fs = Inr ns \<and> distinct ns
                 \<and> set ns = {n. node_at fs (l @ [n]) = Some Dir}"
    by blast
next
  fix u f v m
  assume a: "valid_name u \<and> load_user_embeddings cwd base_dir u fs = Inr (f, v, m)"
  obtain ab ps where p: "Path base_dir = PyPath ab ps"
    by (cases "Path base_dir") auto
  from load_Inr_shape [OF p] a obtain lb where
    lb: "walk fs (if ab then [] else cwd) ps = Inr lb" "node_at fs lb = Some Dir"
        "node_at fs (lb @ [u]) = Some Dir"
    by blast
  from lb(1) have r: "resolve cwd fs (Path base_dir) = Inr lb"
    by (simp add: p resolve_def)
  from lb(3) have "u \<in> {n. node_at fs (lb @ [n]) = Some Dir}" by simp
  with list_users_dir [OF assms r lb(2)] children_set [OF assms, of lb]
  show "\<exists>ns. list_users cwd base_dir fs = Inr ns \<and> u \<in> set ns"
    by auto
qed

lemma load_alice:
  "load_user_embeddings [] ''users'' ''alice''
     [([''users''], Dir), ([''users'', ''alice''], Dir),
      ([''users'', ''alice'', ''face_enc.npy''], File (Npy [1, 0])),
      ([''users'', ''alice'', ''voice_enc.npy''], File (Npy [0, 1])),
      ([''users'', ''alice'', ''meta.json''],
       File (JsonObj [(''role'', JStr ''admin''), (''username'', JStr ''alice'')]))]
   = Inr ([1, 0], [0, 1], [(''role'', JStr ''admin''), (''username'', JStr ''alice'')])"
  by code_simp

theorem list_users_spec_witness:
  "wf_fs [] \<and> \<not> exists [] [] (Path ''users'') \<and> list_users [] ''users'' [] = Inr []
   \<and> (\<exists>ns. list_users [] ''users''
         [([''users''], Dir), ([''users'', ''alice''], Dir),
          ([''users'', ''alice'', ''face_enc.npy''], File (Npy [1, 0])),
          ([''users'', ''alice'', ''voice_enc.npy''], File (Npy [0, 1])),
          ([''users'', ''alice'', ''meta.json''],
           File (JsonObj [(''role'', JStr ''admin''), (''username'', JStr ''alice'')]))] = Inr ns
        \<and> distinct ns \<and> set ns = {''alice''})
   \<and> valid_name ''alice''
   \<and> (\<exists>ns. list_users [] ''users''
         [([''users''], Dir), ([''users'', ''alice''], Dir),
          ([''users'', ''alice'', ''face_enc.npy''], File (Npy [1, 0])),
          ([''users'', ''alice'', ''voice_enc.npy''], File (Npy [0, 1])),
          ([''users'', ''alice'', ''meta.json''],
           File (JsonObj [(''role'', JStr ''admin''), (''username'', JStr ''alice'')]))] = Inr ns
        \<and> ''alice'' \<in> set ns)"
proof -
  let ?fs = "[([''users''], Dir), ([''users'', ''alice''], Dir),
          ([''users'', ''alice'', ''face_enc.npy''], File (Npy [1, 0])),
          ([''users'', ''alice'', ''voice_enc.npy''], File (Npy [0, 1])),
          ([''users'', ''alice'', ''meta.json''],
           File (JsonObj [(''role'', JStr ''admin''), (''username'', JStr ''alice'')]))]"
  have wf0: "wf_fs []" by (simp add: wf_fs_def)
  have ne: "\<not> exists [] [] (Path ''users'')"
    by (simp add: exists_def resolve_def Path_def node_at_def)
  have r: "resolve [] ?fs (Path ''users'') = Inr [''users'']"
    by (simp add: resolve_def Path_def node_at_def)
  have d: "node_at ?fs [''users''] = Some Dir"
    by (simp add: node_at_def)
  have s: "{n. node_at ?fs ([''users''] @ [n]) = Some Dir} = {''alice''}"
    by (auto simp: node_at_def)
  have vn: "valid_name ''alice''" by (simp add: valid_name_def)
  from list_users_spec [OF wf0, of "[]" "''users''"] ne
  have a: "list_users [] ''users'' [] = Inr []" by blast
  from list_users_spec [OF wf_alice, of "[]" "''users''"] r d
  have "\<exists>ns. list_users [] ''users'' ?fs = Inr ns \<and> distinct ns
             \<and> set ns = {n. node_at ?fs ([''users''] @ [n]) = Some Dir}"
    by blast
  then have b: "\<exists>ns. list_users [] ''users'' ?fs = Inr ns \<and> distinct ns \<and> set ns = {''alice''}"
    unfolding s .
  from list_users_spec [OF wf_alice, of "[]" "''users''"] vn load_alice
  have c: "\<exists>ns. list_users [] ''users'' ?fs = Inr ns \<and> ''alice'' \<in> set ns"
    by blast
  from wf0 ne a b vn c show ?thesis by blast
qed

text \<open>
  The claim as worded fails: after the handler has enrolled \<^verbatim>\<open>a/b\<close>, the listing is
  \<^verbatim>\<open>alice\<close> and \<^verbatim>\<open>a\<close>; the template of \<^verbatim>\<open>a/b\<close> can be loaded and is not listed, and
  \<^verbatim>\<open>a\<close> is listed and has no template.
\<close>

theorem list_users_not_enrolled_counterexample:
  "enroll_new_user (\<lambda>_. Inr [[0, 1]]) (\<lambda>_. Inr [1, 0]) []
     \<lparr>admin_user = [], admin_img = None, admin_audio = None, admin_verify_button = False,
      init_user = [], init_face = None, init_voice = None, create_admin_button = False,
      admin_flag = True, new_username = ''a/b'', new_face = Some ''img'',
      new_voice = Some ''wav'', enroll_button = True\<rparr>
     [([''users''], Dir), ([''users'', ''alice''], Dir),
      ([''users'', ''alice'', ''face_enc.npy''], File (Npy [1, 0])),
      ([''users'', ''alice'', ''voice_enc.npy''], File (Npy [0, 1])),
      ([''users'', ''alice'', ''meta.json''],
       File (JsonObj [(''role'', JStr ''admin''), (''username'', JStr ''alice'')]))]
   = (Inr [St_success (''User '' @ [CHR 0x27] @ ''a/b'' @ [CHR 0x27] @ '' enrolled successfully.'')],
      [([''users''], Dir), ([''users'', ''alice''], Dir),
       ([''users'', ''alice'', ''face_enc.npy''], File (Npy [1, 0])),
       ([''users'', ''alice'', ''voice_enc.npy''], File (Npy [0, 1])),
       ([''users'', ''alice'', ''meta.json''],
        File (JsonObj [(''role'', JStr ''admin''), (''username'', JStr ''alice'')])),
       ([''users'', ''a''], Dir), ([''users'', ''a'', ''b''], Dir),
       ([''users'', ''a'', ''b'', ''face_enc.npy''], File (Npy [0, 1])),
       ([''users'', ''a'', ''b'', ''voice_enc.npy''], File (Npy [1, 0])),
       ([''users'', ''a'', ''b'', ''meta.json''],
        File (JsonObj [(''created_by'', JStr ''admin''), (''username'', JStr ''a/b'')]))])
   \<and> list_users [] BASE_USERS_DIR
       [([''users''], Dir), ([''users'', ''alice''], Dir),
        ([''users'', ''alice'', ''face_enc.npy''], File (Npy [1, 0])),
        ([''users'', ''alice'', ''voice_enc.npy''], File (Npy [0, 1])),
        ([''users'', ''alice'', ''meta.json''],
         File (JsonObj [(''role'', JStr ''admin''), (''username'', JStr ''alice'')])),
        ([''users'', ''a''], Dir), ([''users'', ''a'', ''b''], Dir),
        ([''users'', ''a'', ''b'', ''face_enc.npy''], File (Npy [0, 1])),
        ([''users'', ''a'', ''b'', ''voice_enc.npy''], File (Npy [1, 0])),
        ([''users'', ''a'', ''b'', ''meta.json''],
         File (JsonObj [(''created_by'', JStr ''admin''), (''username'', JStr ''a/b'')]))]
     = Inr [''alice'', ''a'']
   \<and> load_user_embeddings [] BASE_USERS_DIR ''a/b''
       [([''users''], Dir), ([''users'', ''alice''], Dir),
        ([''users'', ''alice'', ''face_enc.npy''], File (Npy [1, 0])),
        ([''users'', ''alice'', ''voice_enc.npy''], File (Npy [0, 1])),
        ([''users'', ''alice'', ''meta.json''],
         File (JsonObj [(''role'', JStr ''admin''), (''username'', JStr ''alice'')])),
        ([''users'', ''a''], Dir), ([''users'', ''a'', ''b''], Dir),
        ([''users'', ''a'', ''b'', ''face_enc.npy''], File (Npy [0, 1])),
        ([''users'', ''a'', ''b'', ''voice_enc.npy''], File (Npy [1, 0])),
        ([''users'', ''a'', ''b'', ''meta.json''],
         File (JsonObj [(''created_by'', JStr ''admin''), (''username'', JStr ''a/b'')]))]
     = Inr ([0, 1], [1, 0], [(''created_by'', JStr ''admin''), (''username'', JStr ''a/b'')])
   \<and> load_user_embeddings [] BASE_USERS_DIR ''a''
       [([''users''], Dir), ([''users'', ''alice''], Dir),
        ([''users'', ''alice'', ''face_enc.npy''], File (Npy [1, 0])),
        ([''users'', ''alice'', ''voice_enc.npy''], File (Npy [0, 1])),
        ([''users'', ''alice'', ''meta.json''],
         File (JsonObj [(''role'', JStr ''admin''), (''username'', JStr ''alice'')])),
        ([''users'', ''a''], Dir), ([''users'', ''a'', ''b''], Dir),
        ([''users'', ''a'', ''b'', ''face_enc.npy''], File (Npy [0, 1])),
        ([''users'', ''a'', ''b'', ''voice_enc.npy''], File (Npy [1, 0])),
        ([''users'', ''a'', ''b'', ''meta.json''],
         File (JsonObj [(''created_by'', JStr ''admin''), (''username'', JStr ''a/b'')]))]
     = Inl (FileNotFoundError ''No such file or directory'')"
  by code_simp

subsection \<open>Duplicate usernames\<close>

lemma save_over_existing:
  assumes vn: "valid_name u"
    and ld: "load_user_embeddings cwd base_dir u fs = Inr (f0, v0, m0)"
    and vr: "valid_ref h meta"
  shows "\<exists>fs' h'. save_user_embeddings cwd base_dir u face_enc voice_enc meta (fs, h)
                    = (Inr (), fs', h')
               \<and> load_user_embeddings cwd base_dir u fs'
                    = Inr (face_enc, voice_enc,
                           dict_update ''username'' (JStr u) (caller_dict h meta))"
proof -
  obtain ab ps where p: "Path base_dir = PyPath ab ps"
    by (cases "Path base_dir") auto
  from load_Inr_shape [OF p vn ld] obtain lb where
    lb: "walk fs (if ab then [] else cwd) ps = Inr lb" "node_at fs lb = Some Dir"
        "node_at fs (lb @ [u]) = Some Dir"
        "node_at fs (lb @ [u, ''face_enc.npy'']) \<noteq> Some Dir"
        "node_at fs (lb @ [u, ''voice_enc.npy'']) \<noteq> Some Dir"
        "node_at fs (lb @ [u, ''meta.json'']) \<noteq> Some Dir"
    by blast
  from save_existing_user [OF p lb(1,2) vn lb(3-6), of face_enc voice_enc meta h]
  obtain fs' h' where
    s: "save_user_embeddings cwd base_dir u face_enc voice_enc meta (fs, h) = (Inr (), fs', h')"
    by blast
  from save_then_load [OF s vr] s show ?thesis by blast
qed

text \<open>
  C2, as the code has it. \<^verbatim>\<open>save_user_embeddings\<close> does not refuse an existing
  template: for a username that is a single entry name and whose template can be
  loaded, a further save returns normally and replaces it, so that a load returns the
  new vectors and the new metadata. The duplicate check is made by the handler of the
  \<^verbatim>\<open>Enroll New User\<close> button: when the new username is one of the names that
  \<^verbatim>\<open>list_users\<close> returns, the handler reports that the username already exists and
  leaves the store as it is.
\<close>

theorem duplicate_username_handling:
  "(valid_name u \<and> load_user_embeddings cwd base_dir u fs = Inr (f0, v0, m0) \<and> valid_ref h meta
      \<longrightarrow> (\<exists>fs' h'. save_user_embeddings cwd base_dir u face_enc voice_enc meta (fs, h)
                        = (Inr (), fs', h')
                   \<and> load_user_embeddings cwd base_dir u fs'
                        = Inr (face_enc, voice_enc,
                               dict_update ''username'' (JStr u) (caller_dict h meta))))
   \<and> (list_users cwd BASE_USERS_DIR fs = Inr users \<and> new_username w \<in> set users
        \<and> new_username w \<noteq> [] \<and> admin_flag w \<and> enroll_button w
        \<and> new_face w = Some face_bytes \<and> new_voice w = Some voice_bytes
      \<longrightarrow> enroll_new_user face_encodings encode_file cwd w fs
            = (Inr [St_error ''Username already exists.''], fs))"
proof (intro conjI impI)
  assume "valid_name u \<and> load_user_embeddings cwd base_dir u fs = Inr (f0, v0, m0)
          \<and> valid_ref h meta"
  then show "\<exists>fs' h'. save_user_embeddings cwd base_dir u face_enc voice_enc meta (fs, h)
                        = (Inr (), fs', h')
                   \<and> load_user_embeddings cwd base_dir u fs'
                        = Inr (face_enc, voice_enc,
                               dict_update ''username'' (JStr u) (caller_dict h meta))"
    using save_over_existing by blast
next
  assume "list_users cwd BASE_USERS_DIR fs = Inr users \<and> new_username w \<in> set users
        \<and> new_username w \<noteq> [] \<and> admin_flag w \<and> enroll_button w
        \<and> new_face w = Some face_bytes \<and> new_voice w = Some voice_bytes"
  then show "enroll_new_user face_encodings encode_file cwd w fs
            = (Inr [St_error ''Username already exists.''], fs)"
    by (simp add: enroll_new_user_def)
qed

lemma list_users_alice:
  "list_users [] BASE_USERS_DIR
     [([''users''], Dir), ([''users'', ''alice''], Dir),
      ([''users'', ''alice'', ''face_enc.npy''], File (Npy [1, 0])),
      ([''users'', ''alice'', ''voice_enc.npy''], File (Npy [0, 1])),
      ([''users'', ''alice'', ''meta.json''],
       File (JsonObj [(''role'', JStr ''admin''), (''username'', JStr ''alice'')]))]
   = Inr [''alice'']"
  by code_simp

theorem duplicate_username_handling_witness:
  "valid_name ''alice''
   \<and> load_user_embeddings [] ''users'' ''alice''
       [([''users''], Dir), ([''users'', ''alice''], Dir),
        ([''users'', ''alice'', ''face_enc.npy''], File (Npy [1, 0])),
        ([''users'', ''alice'', ''voice_enc.npy''], File (Npy [0, 1])),
        ([''users'', ''alice'', ''meta.json''],
         File (JsonObj [(''role'', JStr ''admin''), (''username'', JStr ''alice'')]))]
     = Inr ([1, 0], [0, 1], [(''role'', JStr ''admin''), (''username'', JStr ''alice'')])
   \<and> valid_ref [] None
   \<and> (\<exists>fs' h'. save_user_embeddings [] ''users'' ''alice'' [0, 1] [1, 0] None
          ([([''users''], Dir), ([''users'', ''alice''], Dir),
            ([''users'', ''alice'', ''face_enc.npy''], File (Npy [1, 0])),
            ([''users'', ''alice'', ''voice_enc.npy''], File (Npy [0, 1])),
            ([''users'', ''alice'', ''meta.json''],
             File (JsonObj [(''role'', JStr ''admin''), (''username'', JStr ''alice'')]))], [])
          = (Inr (), fs', h')
        \<and> load_user_embeddings [] ''users'' ''alice'' fs'
          = Inr ([0, 1], [1, 0], [(''username'', JStr ''alice'')]))
   \<and> enroll_new_user (\<lambda>_. Inr [[0, 1]]) (\<lambda>_. Inr [1, 0]) []
     \<lparr>admin_user = [], admin_img = None, admin_audio = None, admin_verify_button = False,
      init_user = [], init_face = None, init_voice = None, create_admin_button = False,
      admin_flag = True, new_username = ''alice'', new_face = Some ''img'',
      new_voice = Some ''wav'', enroll_button = True\<rparr>
     [([''users''], Dir), ([''users'', ''alice''], Dir),
      ([''users'', ''alice'', ''face_enc.npy''], File (Npy [1, 0])),
      ([''users'', ''alice'', ''voice_enc.npy''], File (Npy [0, 1])),
      ([''users'', ''alice'', ''meta.json''],
       File (JsonObj [(''role'', JStr ''admin''), (''username'', JStr ''alice'')]))]
   = (Inr [St_error ''Username already exists.''],
     [([''users''], Dir), ([''users'', ''alice''], Dir),
      ([''users'', ''alice'', ''face_enc.npy''], File (Npy [1, 0])),
      ([''users'', ''alice'', ''voice_enc.npy''], File (Npy [0, 1])),
      ([''users'', ''alice'', ''meta.json''],
       File (JsonObj [(''role'', JStr ''admin''), (''username'', JStr ''alice'')]))])"
proof -
  let ?fs = "[([''users''], Dir), ([''users'', ''alice''], Dir),
      ([''users'', ''alice'', ''face_enc.npy''], File (Npy [1, 0])),
      ([''users'', ''alice'', ''voice_enc.npy''], File (Npy [0, 1])),
      ([''users'', ''alice'', ''meta.json''],
       File (JsonObj [(''role'', JStr ''admin''), (''username'', JStr ''alice'')]))]"
  let ?w = "\<lparr>admin_user = [], admin_img = None, admin_audio = None, admin_verify_button = False,
      init_user = [], init_face = None, init_voice = None, create_admin_button = False,
      admin_flag = True, new_username = ''alice'', new_face = Some ''img'',
      new_voice = Some ''wav'', enroll_button = True\<rparr>"
  have vn: "valid_name ''alice''" by (simp add: valid_name_def)
  have vr: "valid_ref [] None" by (simp add: valid_ref_def)
  have cdn: "dict_update ''username'' (JStr ''alice'') (caller_dict [] None)
             = [(''username'', JStr ''alice'')]"
    by (simp add: caller_dict_def dict_update_def)
  note t = duplicate_username_handling [where u = "''alice''" and cwd = "[]"
      and base_dir = "''users''" and fs = ?fs and ?f0.0 = "[1, 0]" and ?v0.0 = "[0, 1]"
      and ?m0.0 = "[(''role'', JStr ''admin''), (''username'', JStr ''alice'')]"
      and h = "[]" and meta = None and face_enc = "[0, 1]" and voice_enc = "[1, 0]"
      and users = "[''alice'']" and w = ?w and face_bytes = "''img''"
      and voice_bytes = "''wav''" and face_encodings = "\<lambda>_. Inr [[0, 1]]"
      and encode_file = "\<lambda>_. Inr [1, 0]"]
  from t vn load_alice vr
  have a: "\<exists>fs' h'. save_user_embeddings [] ''users'' ''alice'' [0, 1] [1, 0] None (?fs, [])
              = (Inr (), fs', h')
            \<and> load_user_embeddings [] ''users'' ''alice'' fs'
              = Inr ([0, 1], [1, 0], [(''username'', JStr ''alice'')])"
    unfolding cdn by blast
  from t list_users_alice
  have b: "enroll_new_user (\<lambda>_. Inr [[0, 1]]) (\<lambda>_. Inr [1, 0]) [] ?w ?fs
           = (Inr [St_error ''Username already exists.''], ?fs)"
    by simp
  from vn load_alice vr a b show ?thesis by blast
qed

text \<open>
  The claim as worded fails: a second save for \<^verbatim>\<open>alice\<close> returns normally and
  replaces the two vectors and the metadata of the first.
\<close>

theorem create_twice_counterexample:
  "save_user_embeddings [] ''users'' ''alice'' [1, 0] [0, 1] (Some 0)
     ([], [[(''role'', JStr ''admin'')]])
   = (Inr (),
      [([''users''], Dir), ([''users'', ''alice''], Dir),
       ([''users'', ''alice'', ''face_enc.npy''], File (Npy [1, 0])),
       ([''users'', ''alice'', ''voice_enc.npy''], File (Npy [0, 1])),
       ([''users'', ''alice'', ''meta.json''],
        File (JsonObj [(''role'', JStr ''admin''), (''username'', JStr ''alice'')]))],
      [[(''role'', JStr ''admin''), (''username'', JStr ''alice'')]])
   \<and> save_user_embeddings [] ''users'' ''alice'' [0, 1] [1, 0] None
      ([([''users''], Dir), ([''users'', ''alice''], Dir),
        ([''users'', ''alice'', ''face_enc.npy''], File (Npy [1, 0])),
        ([''users'', ''alice'', ''voice_enc.npy''], File (Npy [0, 1])),
        ([''users'', ''alice'', ''meta.json''],
         File (JsonObj [(''role'', JStr ''admin''), (''username'', JStr ''alice'')]))], [])
   = (Inr (),
      [([''users''], Dir), ([''users'', ''alice''], Dir),
       ([''users'', ''alice'', ''face_enc.npy''], File (Npy [0, 1])),
       ([''users'', ''alice'', ''voice_enc.npy''], File (Npy [1, 0])),
       ([''users'', ''alice'', ''meta.json''],
        File (JsonObj [(''username'', JStr ''alice'')]))],
      [[(''username'', JStr ''alice'')]])"
  by code_simp

subsection \<open>The Admin Login / Enroll page: enrollment\<close>

lemma enroll_fresh_user:
  assumes wf: "wf_fs fs" and cd: "node_at fs cwd = Some Dir"
    and l: "list_users cwd BASE_USERS_DIR fs = Inr users" and ne: "users \<noteq> []"
    and fl: "admin_flag w" and bt: "enroll_button w"
    and vn: "valid_name (new_username w)"
    and fresh: "node_at fs (cwd @ [''users'', new_username w]) = None"
    and i: "new_face w = Some face_bytes" "new_voice w = Some voice_bytes"
    and x: "get_face_encoding_from_image face_encodings face_bytes = Inr fenc"
       "get_voice_embedding_from_wav encode_file voice_bytes = Inr venc"
  shows "\<exists>fs'. enroll_new_user face_encodings encode_file cwd w fs
               = (Inr [St_success (''User '' @ [CHR 0x27] @ new_username w @ [CHR 0x27] @
                                   '' enrolled successfully.'')], fs')
             \<and> load_user_embeddings cwd BASE_USERS_DIR (new_username w) fs'
               = Inr (fenc, venc,
                      [(''created_by'', JStr ''admin''), (''username'', JStr (new_username w))])"
proof -
  let ?lb = "cwd @ [''users'']"
  let ?u = "new_username w"
  have d: "node_at fs ?lb = Some Dir" by (rule nonempty_listing [OF cd l ne])
  have w0: "walk fs (if False then [] else cwd) [''users''] = Inr ?lb"
    using cd by simp
  have r: "resolve cwd fs (Path BASE_USERS_DIR) = Inr ?lb"
    using w0 by (simp add: Path_users resolve_def)
  from fresh have "?u \<notin> {n. node_at fs (?lb @ [n]) = Some Dir}" by simp
  with list_users_dir [OF wf r d] children_set [OF wf, of ?lb] l
  have nin: "?u \<notin> set users" by auto
  from vn have nemp: "?u \<noteq> []" by (simp add: valid_name_def)
  have fresh': "node_at fs (?lb @ [?u]) = None" using fresh by simp
  from save_fresh_user [OF Path_users w0 d vn wf fresh', of fenc venc "Some 0"
      "[[(''created_by'', JStr ''admin'')]]"]
  obtain fs' h' where
    s: "save_user_embeddings cwd BASE_USERS_DIR ?u fenc venc (Some 0)
          (fs, [[(''created_by'', JStr ''admin'')]]) = (Inr (), fs', h')"
    by blast
  have vr: "valid_ref [[(''created_by'', JStr ''admin'')]] (Some 0)"
    by (simp add: valid_ref_def)
  have "dict_update ''username'' (JStr ?u)
          (caller_dict [[(''created_by'', JStr ''admin'')]] (Some 0))
        = [(''created_by'', JStr ''admin''), (''username'', JStr ?u)]"
    by (simp add: caller_dict_def dict_update_def)
  with save_then_load [OF s vr]
  have ld: "load_user_embeddings cwd BASE_USERS_DIR ?u fs'
            = Inr (fenc, venc, [(''created_by'', JStr ''admin''), (''username'', JStr ?u)])"
    by simp
  have "enroll_new_user face_encodings encode_file cwd w fs
        = (Inr [St_success (''User '' @ [CHR 0x27] @ ?u @ [CHR 0x27] @
                            '' enrolled successfully.'')], fs')"
    by (simp add: enroll_new_user_def fl bt i nemp l nin x s)
  with ld show ?thesis by blast
qed

text \<open>
  C1, as the code has it. The enrollment panel is gated by the checkbox
  \<^verbatim>\<open>admin_flag\<close> alone. With the box unticked it shows nothing and leaves the store as
  it is. With the box ticked, in a populated store, the \<^verbatim>\<open>Enroll New User\<close> button with
  a new username that is a single entry name not yet used in the store root, with both
  uploads and both extractions succeeding, enrols: the page reports success after
  whatever the admin login step showed, and the new template can be loaded with the
  metadata \<^verbatim>\<open>created_by = admin\<close> and the username; nothing is asked of the admin
  login. And the store that a run of the page leaves behind does not depend on the
  widgets of the admin login (username, image, audio, \<^verbatim>\<open>Admin Verify\<close> button), hence
  not on whether a verification passed.
\<close>

theorem enroll_gate_is_checkbox:
  "(\<not> admin_flag w \<longrightarrow>
      enroll_new_user face_encodings encode_file cwd w fs = (Inr [], fs))
   \<and> (wf_fs fs \<and> node_at fs cwd = Some Dir
        \<and> list_users cwd BASE_USERS_DIR fs = Inr users \<and> users \<noteq> []
        \<and> admin_flag w \<and> enroll_button w \<and> valid_name (new_username w)
        \<and> node_at fs (cwd @ [''users'', new_username w]) = None
        \<and> new_face w = Some face_bytes \<and> new_voice w = Some voice_bytes
        \<and> get_face_encoding_from_image face_encodings face_bytes = Inr fenc
        \<and> get_voice_embedding_from_wav encode_file voice_bytes = Inr venc
      \<longrightarrow> (\<exists>fs'. admin_page face_encodings encode_file cwd w fs
                    = (fst (admin_verify face_encodings encode_file cwd fs w)
                       @ [St_info ''Users already exist; initializing admin not required.'',
                          St_success (''User '' @ [CHR 0x27] @ new_username w @ [CHR 0x27] @
                                      '' enrolled successfully.'')], fs')
                \<and> load_user_embeddings cwd BASE_USERS_DIR (new_username w) fs'
                    = Inr (fenc, venc,
                           [(''created_by'', JStr ''admin''),
                            (''username'', JStr (new_username w))])))
   \<and> snd (admin_page face_encodings encode_file cwd
            (w\<lparr>admin_user := u, admin_img := i, admin_audio := a, admin_verify_button := b\<rparr>) fs)
     = snd (admin_page face_encodings encode_file cwd w fs)"
proof (intro conjI impI)
  assume "\<not> admin_flag w"
  then show "enroll_new_user face_encodings encode_file cwd w fs = (Inr [], fs)"
    by (simp add: enroll_new_user_def)
next
  assume h: "wf_fs fs \<and> node_at fs cwd = Some Dir
        \<and> list_users cwd BASE_USERS_DIR fs = Inr users \<and> users \<noteq> []
        \<and> admin_flag w \<and> enroll_button w \<and> valid_name (new_username w)
        \<and> node_at fs (cwd @ [''users'', new_username w]) = None
        \<and> new_face w = Some face_bytes \<and> new_voice w = Some voice_bytes
        \<and> get_face_encoding_from_image face_encodings face_bytes = Inr fenc
        \<and> get_voice_embedding_from_wav encode_file voice_bytes = Inr venc"
  then have l: "list_users cwd BASE_USERS_DIR fs = Inr users" and ne: "users \<noteq> []"
    by simp_all
  from h enroll_fresh_user [of fs cwd users w face_bytes voice_bytes face_encodings fenc
      encode_file venc]
  obtain fs' where
    e: "enroll_new_user face_encodings encode_file cwd w fs
        = (Inr [St_success (''User '' @ [CHR 0x27] @ new_username w @ [CHR 0x27] @
                            '' enrolled successfully.'')], fs')"
    and ld: "load_user_embeddings cwd BASE_USERS_DIR (new_username w) fs'
             = Inr (fenc, venc,
                    [(''created_by'', JStr ''admin''), (''username'', JStr (new_username w))])"
    by blast
  have c: "create_admin face_encodings encode_file cwd w fs
           = (Inr [St_info ''Users already exist; initializing admin not required.''], fs)"
    using l ne by (simp add: create_admin_def)
  have "admin_page face_encodings encode_file cwd w fs
        = (fst (admin_verify face_encodings encode_file cwd fs w)
           @ [St_info ''Users already exist; initializing admin not required.'',
              St_success (''User '' @ [CHR 0x27] @ new_username w @ [CHR 0x27] @
                          '' enrolled successfully.'')], fs')"
    by (simp add: admin_page_def c e split: prod.splits)
  with ld
  show "\<exists>fs'. admin_page face_encodings encode_file cwd w fs
                    = (fst (admin_verify face_encodings encode_file cwd fs w)
                       @ [St_info ''Users already exist; initializing admin not required.'',
                          St_success (''User '' @ [CHR 0x27] @ new_username w @ [CHR 0x27] @
                                      '' enrolled successfully.'')], fs')
                \<and> load_user_embeddings cwd BASE_USERS_DIR (new_username w) fs'
                    = Inr (fenc, venc,
                           [(''created_by'', JStr ''admin''),
                            (''username'', JStr (new_username w))])"
    by blast
next
  let ?w = "w\<lparr>admin_user := u, admin_img := i, admin_audio := a, admin_verify_button := b\<rparr>"
  have c: "create_admin face_encodings encode_file cwd ?w fs
           = create_admin face_encodings encode_file cwd w fs"
    by (simp add: create_admin_def cong: sum.case_cong prod.case_cong option.case_cong if_cong)
  have e: "enroll_new_user face_encodings encode_file cwd ?w fs1
           = enroll_new_user face_encodings encode_file cwd w fs1" for fs1
    by (simp add: enroll_new_user_def cong: sum.case_cong prod.case_cong option.case_cong if_cong)
  show "snd (admin_page face_encodings encode_file cwd ?w fs)
        = snd (admin_page face_encodings encode_file cwd w fs)"
    unfolding admin_page_def c e by (simp split: prod.splits sum.splits)
qed

theorem enroll_gate_is_checkbox_witness:
  "enroll_new_user (\<lambda>_. Inr [[0, 1]]) (\<lambda>_. Inr [1, 0]) []
     \<lparr>admin_user = [], admin_img = None, admin_audio = None, admin_verify_button = False,
      init_user = [], init_face = None, init_voice = None, create_admin_button = False,
      admin_flag = False, new_username = ''bob'', new_face = Some ''img'',
      new_voice = Some ''wav'', enroll_button = True\<rparr> []
   = (Inr [], [])
   \<and> snd (admin_verify (\<lambda>_. Inr [[0, 1]]) (\<lambda>_. Inr [1, 0]) []
       [([''users''], Dir), ([''users'', ''alice''], Dir),
        ([''users'', ''alice'', ''face_enc.npy''], File (Npy [1, 0])),
        ([''users'', ''alice'', ''voice_enc.npy''], File (Npy [0, 1])),
        ([''users'', ''alice'', ''meta.json''],
         File (JsonObj [(''role'', JStr ''admin''), (''username'', JStr ''alice'')]))]
       \<lparr>admin_user = [], admin_img = None, admin_audio = None, admin_verify_button = False,
        init_user = [], init_face = None, init_voice = None, create_admin_button = False,
        admin_flag = True, new_username = ''bob'', new_face = Some ''img'',
        new_voice = Some ''wav'', enroll_button = True\<rparr>) = False
   \<and> (\<exists>fs'. admin_page (\<lambda>_. Inr [[0, 1]]) (\<lambda>_. Inr [1, 0]) []
         \<lparr>admin_user = [], admin_img = None, admin_audio = None, admin_verify_button = False,
          init_user = [], init_face = None, init_voice = None, create_admin_button = False,
          admin_flag = True, new_username = ''bob'', new_face = Some ''img'',
          new_voice = Some ''wav'', enroll_button = True\<rparr>
         [([''users''], Dir), ([''users'', ''alice''], Dir),
          ([''users'', ''alice'', ''face_enc.npy''], File (Npy [1, 0])),
          ([''users'', ''alice'', ''voice_enc.npy''], File (Npy [0, 1])),
          ([''users'', ''alice'', ''meta.json''],
           File (JsonObj [(''role'', JStr ''admin''), (''username'', JStr ''alice'')]))]
        = ([St_info ''Users already exist; initializing admin not required.'',
            St_success (''User '' @ [CHR 0x27] @ ''bob'' @ [CHR 0x27] @
                        '' enrolled successfully.'')], fs')
      \<and> load_user_embeddings [] BASE_USERS_DIR ''bob'' fs'
        = Inr ([0, 1], [1, 0], [(''created_by'', JStr ''admin''), (''username'', JStr ''bob'')]))"
proof -
  let ?fs = "[([''users''], Dir), ([''users'', ''alice''], Dir),
          ([''users'', ''alice'', ''face_enc.npy''], File (Npy [1, 0])),
          ([''users'', ''alice'', ''voice_enc.npy''], File (Npy [0, 1])),
          ([''users'', ''alice'', ''meta.json''],
           File (JsonObj [(''role'', JStr ''admin''), (''username'', JStr ''alice'')]))]"
  let ?w0 = "\<lparr>admin_user = [], admin_img = None, admin_audio = None, admin_verify_button = False,
      init_user = [], init_face = None, init_voice = None, create_admin_button = False,
      admin_flag = False, new_username = ''bob'', new_face = Some ''img'',
      new_voice = Some ''wav'', enroll_button = True\<rparr>"
  let ?w1 = "\<lparr>admin_user = [], admin_img = None, admin_audio = None, admin_verify_button = False,
      init_user = [], init_face = None, init_voice = None, create_admin_button = False,
      admin_flag = True, new_username = ''bob'', new_face = Some ''img'',
      new_voice = Some ''wav'', enroll_button = True\<rparr>"
  have a: "enroll_new_user (\<lambda>_. Inr [[0, 1]]) (\<lambda>_. Inr [1, 0]) [] ?w0 [] = (Inr [], [])"
    using enroll_gate_is_checkbox [where w = ?w0 and face_encodings = "\<lambda>_. Inr [[0, 1]]"
        and encode_file = "\<lambda>_. Inr [1, 0]" and cwd = "[]" and fs = "[]"]
    by simp
  have av: "admin_verify (\<lambda>_. Inr [[0, 1]]) (\<lambda>_. Inr [1, 0]) [] ?fs ?w1 = ([], False)"
    by (simp add: admin_verify_def)
  have cd: "node_at ?fs [] = Some Dir" by (simp add: node_at_def)
  have vn: "valid_name (new_username ?w1)" by (simp add: valid_name_def)
  have fresh: "node_at ?fs ([] @ [''users'', new_username ?w1]) = None"
    by (simp add: node_at_def)
  have f: "get_face_encoding_from_image (\<lambda>_. Inr [[0, 1]]) ''img'' = Inr [0, 1]"
    by (simp add: get_face_encoding_from_image_def)
  have v: "get_voice_embedding_from_wav (\<lambda>_. Inr [1, 0]) ''wav'' = Inr [1, 0]"
    by (simp add: get_voice_embedding_from_wav_def)
  from enroll_gate_is_checkbox [where w = ?w1 and face_encodings = "\<lambda>_. Inr [[0, 1]]"
      and encode_file = "\<lambda>_. Inr [1, 0]" and cwd = "[]" and fs = ?fs
      and users = "[''alice'']" and face_bytes = "''img''" and voice_bytes = "''wav''"
      and fenc = "[0, 1]" and venc = "[1, 0]"]
    wf_alice cd list_users_alice vn fresh f v
  have "\<exists>fs'. admin_page (\<lambda>_. Inr [[0, 1]]) (\<lambda>_. Inr [1, 0]) [] ?w1 ?fs
          = (fst (admin_verify (\<lambda>_. Inr [[0, 1]]) (\<lambda>_. Inr [1, 0]) [] ?fs ?w1)
             @ [St_info ''Users already exist; initializing admin not required.'',
                St_success (''User '' @ [CHR 0x27] @ new_username ?w1 @ [CHR 0x27] @
                            '' enrolled successfully.'')], fs')
        \<and> load_user_embeddings [] BASE_USERS_DIR (new_username ?w1) fs'
          = Inr ([0, 1], [1, 0],
                 [(''created_by'', JStr ''admin''), (''username'', JStr (new_username ?w1))])"
    by simp
  then have b: "\<exists>fs'. admin_page (\<lambda>_. Inr [[0, 1]]) (\<lambda>_. Inr [1, 0]) [] ?w1 ?fs
          = ([St_info ''Users already exist; initializing admin not required.'',
              St_success (''User '' @ [CHR 0x27] @ ''bob'' @ [CHR 0x27] @
                          '' enrolled successfully.'')], fs')
        \<and> load_user_embeddings [] BASE_USERS_DIR ''bob'' fs'
          = Inr ([0, 1], [1, 0], [(''created_by'', JStr ''admin''), (''username'', JStr ''bob'')])"
    unfolding av by simp
  from av have c: "snd (admin_verify (\<lambda>_. Inr [[0, 1]]) (\<lambda>_. Inr [1, 0]) [] ?fs ?w1) = False"
    by simp
  from a c b show ?thesis by blast
qed

text \<open>
  The claim as worded fails: \<^verbatim>\<open>alice\<close> is enrolled, nobody has verified
  (\<^verbatim>\<open>admin_authenticated\<close> is \<^verbatim>\<open>False\<close>), the box is ticked, and \<^verbatim>\<open>bob\<close> is enrolled.
\<close>

theorem enroll_without_verify_counterexample:
  "admin_verify (\<lambda>_. Inr [[0, 1]]) (\<lambda>_. Inr [1, 0]) []
     [([''users''], Dir), ([''users'', ''alice''], Dir),
      ([''users'', ''alice'', ''face_enc.npy''], File (Npy [1, 0])),
      ([''users'', ''alice'', ''voice_enc.npy''], File (Npy [0, 1])),
      ([''users'', ''alice'', ''meta.json''],
       File (JsonObj [(''role'', JStr ''admin''), (''username'', JStr ''alice'')]))]
     \<lparr>admin_user = [], admin_img = None, admin_audio = None, admin_verify_button = False,
      init_user = [], init_face = None, init_voice = None, create_admin_button = False,
      admin_flag = True, new_username = ''bob'', new_face = Some ''img'',
      new_voice = Some ''wav'', enroll_button = True\<rparr>
   = ([], False)
   \<and> admin_page (\<lambda>_. Inr [[0, 1]]) (\<lambda>_. Inr [1, 0]) []
     \<lparr>admin_user = [], admin_img = None, admin_audio = None, admin_verify_button = False,
      init_user = [], init_face = None, init_voice = None, create_admin_button = False,
      admin_flag = True, new_username = ''bob'', new_face = Some ''img'',
      new_voice = Some ''wav'', enroll_button = True\<rparr>
     [([''users''], Dir), ([''users'', ''alice''], Dir),
      ([''users'', ''alice'', ''face_enc.npy''], File (Npy [1, 0])),
      ([''users'', ''alice'', ''voice_enc.npy''], File (Npy [0, 1])),
      ([''users'', ''alice'', ''meta.json''],
       File (JsonObj [(''role'', JStr ''admin''), (''username'', JStr ''alice'')]))]
   = ([St_info ''Users already exist; initializing admin not required.'',
       St_success (''User '' @ [CHR 0x27] @ ''bob'' @ [CHR 0x27] @ '' enrolled successfully.'')],
      [([''users''], Dir), ([''users'', ''alice''], Dir),
       ([''users'', ''alice'', ''face_enc.npy''], File (Npy [1, 0])),
       ([''users'', ''alice'', ''voice_enc.npy''], File (Npy [0, 1])),
       ([''users'', ''alice'', ''meta.json''],
        File (JsonObj [(''role'', JStr ''admin''), (''username'', JStr ''alice'')])),
       ([''users'', ''bob''], Dir),
       ([''users'', ''bob'', ''face_enc.npy''], File (Npy [0, 1])),
       ([''users'', ''bob'', ''voice_enc.npy''], File (Npy [1, 0])),
       ([''users'', ''bob'', ''meta.json''],
        File (JsonObj [(''created_by'', JStr ''admin''), (''username'', JStr ''bob'')]))])"
proof -
  have v: "admin_verify (\<lambda>_. Inr [[0, 1]]) (\<lambda>_. Inr [1, 0]) []
     [([''users''], Dir), ([''users'', ''alice''], Dir),
      ([''users'', ''alice'', ''face_enc.npy''], File (Npy [1, 0])),
      ([''users'', ''alice'', ''voice_enc.npy''], File (Npy [0, 1])),
      ([''users'', ''alice'', ''meta.json''],
       File (JsonObj [(''role'', JStr ''admin''), (''username'', JStr ''alice'')]))]
     \<lparr>admin_user = [], admin_img = None, admin_audio = None, admin_verify_button = False,
      init_user = [], init_face = None, init_voice = None, create_admin_button = False,
      admin_flag = True, new_username = ''bob'', new_face = Some ''img'',
      new_voice = Some ''wav'', enroll_button = True\<rparr>
   = ([], False)"
    by (simp add: admin_verify_def)
  have c: "create_admin (\<lambda>_. Inr [[0, 1]]) (\<lambda>_. Inr [1, 0]) []
     \<lparr>admin_user = [], admin_img = None, admin_audio = None, admin_verify_button = False,
      init_user = [], init_face = None, init_voice = None, create_admin_button = False,
      admin_flag = True, new_username = ''bob'', new_face = Some ''img'',
      new_voice = Some ''wav'', enroll_button = True\<rparr>
     [([''users''], Dir), ([''users'', ''alice''], Dir),
      ([''users'', ''alice'', ''face_enc.npy''], File (Npy [1, 0])),
      ([''users'', ''alice'', ''voice_enc.npy''], File (Npy [0, 1])),
      ([''users'', ''alice'', ''meta.json''],
       File (JsonObj [(''role'', JStr ''admin''), (''username'', JStr ''alice'')]))]
   = (Inr [St_info ''Users already exist; initializing admin not required.''],
     [([''users''], Dir), ([''users'', ''alice''], Dir),
      ([''users'', ''alice'', ''face_enc.npy''], File (Npy [1, 0])),
      ([''users'', ''alice'', ''voice_enc.npy''], File (Npy [0, 1])),
      ([''users'', ''alice'', ''meta.json''],
       File (JsonObj [(''role'', JStr ''admin''), (''username'', JStr ''alice'')]))])"
    by code_simp
  have e: "enroll_new_user (\<lambda>_. Inr [[0, 1]]) (\<lambda>_. Inr [1, 0]) []
     \<lparr>admin_user = [], admin_img = None, admin_audio = None, admin_verify_button = False,
      init_user = [], init_face = None, init_voice = None, create_admin_button = False,
      admin_flag = True, new_username = ''bob'', new_face = Some ''img'',
      new_voice = Some ''wav'', enroll_button = True\<rparr>
     [([''users''], Dir), ([''users'', ''alice''], Dir),
      ([''users'', ''alice'', ''face_enc.npy''], File (Npy [1, 0])),
      ([''users'', ''alice'', ''voice_enc.npy''], File (Npy [0, 1])),
      ([''users'', ''alice'', ''meta.json''],
       File (JsonObj [(''role'', JStr ''admin''), (''username'', JStr ''alice'')]))]
   = (Inr [St_success (''User '' @ [CHR 0x27] @ ''bob'' @ [CHR 0x27] @ '' enrolled successfully.'')],
      [([''users''], Dir), ([''users'', ''alice''], Dir),
       ([''users'', ''alice'', ''face_enc.npy''], File (Npy [1, 0])),
       ([''users'', ''alice'', ''voice_enc.npy''], File (Npy [0, 1])),
       ([''users'', ''alice'', ''meta.json''],
        File (JsonObj [(''role'', JStr ''admin''), (''username'', JStr ''alice'')])),
       ([''users'', ''bob''], Dir),
       ([''users'', ''bob'', ''face_enc.npy''], File (Npy [0, 1])),
       ([''users'', ''bob'', ''voice_enc.npy''], File (Npy [1, 0])),
       ([''users'', ''bob'', ''meta.json''],
        File (JsonObj [(''created_by'', JStr ''admin''), (''username'', JStr ''bob'')]))])"
    by code_simp
  show ?thesis
    by (simp add: admin_page_def v c e)
qed

end
